theory Spec2Isabelle
  imports Complex_Main "HOL-Library.Char_ord" "HOL-Library.List_Lexorder" "HOL-Library.Sublist"
begin

section \<open>Python values, keyword arguments and errors\<close>

text \<open>
  The metric functions of \<^verbatim>\<open>EnsoMetricsLib.py\<close> receive their options as \<^verbatim>\<open>**kwargs\<close>,
  a dictionary from option names to Python values. Only the shapes the functions
  inspect are distinguished: \<^verbatim>\<open>None\<close>, booleans, integers, floats, strings, lists
  and dictionaries. \<open>PyExt\<close> stands for a value computed by the climate data toolkit
  (or held in a local variable that no check depends on); it carries the name of the
  source expression.
\<close>

datatype pyval =
    PyNone
  | PyBool bool
  | PyInt int
  | PyFloat real
  | PyStr string
  | PyList "pyval list"
  | PyDict "(string \<times> pyval) list"
  | PyExt string

type_synonym kwargs = "string \<rightharpoonup> pyval"

type_synonym pyrecord = "(string \<times> pyval) list"

text \<open>
  Modelled from the spec: the module \<^verbatim>\<open>EnsoErrorsWarnings\<close> is not under src/. Its
  functions \<^verbatim>\<open>MyError\<close>, \<^verbatim>\<open>TooShortTimePeriod\<close> and \<^verbatim>\<open>UnknownKeyArg\<close> are fatal to the
  metric call (spec, section 7); each is an error value carrying the arguments the
  source passes. The other errors are Python's own.
\<close>

datatype error =
    MyError "string list"
  | TooShortTimePeriod string nat pyval string
  | UnknownKeyArg "string list" string
  | KeyError string
  | ZeroDivisionError
  | IndexError
  | TypeError
  | AttributeError

text \<open>\<^verbatim>\<open>kwargs[key]\<close>: a missing key raises \<^verbatim>\<open>KeyError\<close>.\<close>

definition getitem :: "kwargs \<Rightarrow> string \<Rightarrow> error + pyval" where
  "getitem kw key = (case kw key of None \<Rightarrow> Inl (KeyError key) | Some v \<Rightarrow> Inr v)"

text \<open>
  Modelled from the spec: \<^verbatim>\<open>KeyArgLib.DefaultArgValues\<close> is not under src/. The values
  are the defaults every metric docstring documents: \<^verbatim>\<open>False\<close> for detrending,
  normalization, regridding and smoothing, \<^verbatim>\<open>None\<close> for frequency, min_time_steps and
  the time bounds.
\<close>

definition DefaultArgValues :: "string \<Rightarrow> pyval" where
  "DefaultArgValues arg =
     (if arg = ''detrending'' \<or> arg = ''normalization'' \<or> arg = ''regridding''
         \<or> arg = ''smoothing''
      then PyBool False else PyNone)"

text \<open>
  \<^verbatim>\<open>for arg in needed_kwarg: try: kwargs[arg] except: kwargs[arg] = DefaultArgValues(arg)\<close>
\<close>

definition test_given_kwargs :: "string list \<Rightarrow> kwargs \<Rightarrow> kwargs" where
  "test_given_kwargs needed_kwarg kw =
     foldl (\<lambda>k arg. case k arg of None \<Rightarrow> k(arg \<mapsto> DefaultArgValues arg) | Some _ \<Rightarrow> k)
       kw needed_kwarg"

text \<open>
  \<^verbatim>\<open>isinstance(v, int)\<close>: true of integers and, \<^verbatim>\<open>bool\<close> being a subclass of \<^verbatim>\<open>int\<close>,
  of booleans, which then count as 1 and 0.
\<close>

fun isinstance_int :: "pyval \<Rightarrow> bool" where
  "isinstance_int (PyInt _) = True"
| "isinstance_int (PyBool _) = True"
| "isinstance_int _ = False"

fun int_value :: "pyval \<Rightarrow> int" where
  "int_value (PyInt i) = i"
| "int_value (PyBool b) = (if b then 1 else 0)"
| "int_value _ = 0"

text \<open>\<^verbatim>\<open>str(n)\<close> of a length and of an integer option value.\<close>

fun str_nat :: "nat \<Rightarrow> string" where
  "str_nat n =
     (if n < 10 then [char_of (48 + n)]
      else str_nat (n div 10) @ [char_of (48 + n mod 10)])"

declare str_nat.simps [simp del]

fun str_value :: "pyval \<Rightarrow> string" where
  "str_value (PyInt i) = (if i < 0 then CHR ''-'' # str_nat (nat (- i)) else str_nat (nat i))"
| "str_value (PyBool b) = (if b then ''True'' else ''False'')"
| "str_value _ = []"

section \<open>Toolkit calls and the inputs of a metric call\<close>

text \<open>
  The toolkit functions (\<^verbatim>\<open>ReadSelectRegionCheckUnits\<close>, \<^verbatim>\<open>ReadAreaSelectRegion\<close>,
  \<^verbatim>\<open>ReadLandmaskSelectRegion\<close>, \<^verbatim>\<open>CheckTime\<close>, \<^verbatim>\<open>PreProcessTS\<close>, \<^verbatim>\<open>TwoVarRegrid\<close>) are
  external collaborators. A metric call is modelled by the errors it raises, the record
  it returns and the list of toolkit calls it makes with the keyword arguments it hands
  over: the tool, the variable the result is bound to, the box, and the \<^verbatim>\<open>**kwargs\<close>.
  Toolkit calls are taken to return.
\<close>

datatype call = Call (tool: string) (variable: string) (region: string) (passed: kwargs)

datatype boxarg = OneBox string | BoxList "string list"

text \<open>
  What a call is given and what the toolkit reads for it: the keyword arguments, the call
  stack context \<^verbatim>\<open>MessageFormating(INSPECTstack())\<close>, \<^verbatim>\<open>len()\<close> of the two series the
  length check looks at (model and observations; for a one-dataset metric the SST series
  and the second variable), the box of the first variable, the box of the second
  variable, the region of the event index, the precipitation regions, and for each
  precipitation region the four composites the toolkit's \<^verbatim>\<open>Composite\<close> returns.
\<close>

record inputs =
  kwargs :: kwargs
  stack :: string
  len_model :: nat
  len_obs :: nat
  box :: string
  box2 :: string
  region_ev :: string
  prbox :: boxarg
  composite_of :: "string \<Rightarrow> string \<Rightarrow> real"

record outcome =
  result :: pyrecord
  calls :: "call list"
  final_kwargs :: kwargs

section \<open>The minimum length criterion\<close>

text \<open>
  The block \<^verbatim>\<open>if isinstance(kwargs['min_time_steps'], int): ...\<close> of the two-dataset
  metrics: the modelled series is checked first, then the observed one, and
  \<^verbatim>\<open>MyError\<close> gets the two lines built here.
\<close>

definition too_short_lines :: "string \<Rightarrow> string \<Rightarrow> string \<Rightarrow> nat \<Rightarrow> pyval \<Rightarrow> string list" where
  "too_short_lines stk name which n mini =
     [''ERROR '' @ stk @ '': too short time-period'',
      replicate 5 CHR '' '' @ name @ '': the '' @ which @ '' time-period is too short: ''
        @ str_nat n @ '' (minimum time-period: '' @ str_value mini @ '')'']"

definition check_time_period :: "string \<Rightarrow> string \<Rightarrow> kwargs \<Rightarrow> nat \<Rightarrow> nat \<Rightarrow> error + unit" where
  "check_time_period stk name kw n_model n_obs =
     (case getitem kw ''min_time_steps'' of
        Inl e \<Rightarrow> Inl e
      | Inr mini \<Rightarrow>
          if isinstance_int mini then
            if int n_model < int_value mini
            then Inl (MyError (too_short_lines stk name ''modeled'' n_model mini))
            else if int n_obs < int_value mini
            then Inl (MyError (too_short_lines stk name ''observed'' n_obs mini))
            else Inr ()
          else Inr ())"

text \<open>The reads of a model/observations pair in one box, and their preprocessing.\<close>

definition read_calls :: "kwargs \<Rightarrow> string \<Rightarrow> string \<Rightarrow> string \<Rightarrow> call list" where
  "read_calls kw v_model v_obs bx =
     [Call ''ReadSelectRegionCheckUnits'' v_model bx kw,
      Call ''ReadSelectRegionCheckUnits'' v_obs bx kw,
      Call ''ReadAreaSelectRegion'' ''model_areacell'' bx kw,
      Call ''ReadAreaSelectRegion'' ''obs_areacell'' bx kw,
      Call ''ReadLandmaskSelectRegion'' ''model_landmask'' bx kw,
      Call ''ReadLandmaskSelectRegion'' ''obs_landmask'' bx kw]"

definition preprocess_calls :: "kwargs \<Rightarrow> string \<Rightarrow> string \<Rightarrow> string \<Rightarrow> call list" where
  "preprocess_calls kw v_model v_obs bx =
     [Call ''PreProcessTS'' v_model bx kw, Call ''PreProcessTS'' v_obs bx kw]"

section \<open>EnsoPrJjaTel\<close>

text \<open>\<^verbatim>\<open>str.lower\<close> on ASCII strings, the key of \<^verbatim>\<open>sorted(prbox, key=str.lower)\<close>.\<close>

definition lower_char :: "char \<Rightarrow> char" where
  "lower_char c =
     (if CHR ''A'' \<le> c \<and> c \<le> CHR ''Z'' then char_of (of_char c + (32::nat)) else c)"

definition str_lower :: "string \<Rightarrow> string" where
  "str_lower s = map lower_char s"

text \<open>
  \<^verbatim>\<open>if not isinstance(prbox, list): prbox = [prbox]\<close> and
  \<^verbatim>\<open>prbox = sorted(prbox, key=str.lower)\<close>.
\<close>

definition regions :: "inputs \<Rightarrow> string list" where
  "regions d = sort_key str_lower (case prbox d of OneBox b \<Rightarrow> [b] | BoxList bs \<Rightarrow> bs)"

text \<open>
  One entry per region, appended in the loop:
  \<^verbatim>\<open>float(composite_nino_model - composite_nina_model)\<close> and the same for the
  observations.
\<close>

definition list_composite_model :: "inputs \<Rightarrow> real list" where
  "list_composite_model d =
     map (\<lambda>reg. composite_of d ''composite_nino_model'' reg
                 - composite_of d ''composite_nina_model'' reg) (regions d)"

definition list_composite_obs :: "inputs \<Rightarrow> real list" where
  "list_composite_obs d =
     map (\<lambda>reg. composite_of d ''composite_nino_obs'' reg
                 - composite_of d ''composite_nina_obs'' reg) (regions d)"

text \<open>
  \<^verbatim>\<open>sum([1. for vmod,vobs in zip(list_composite_model,list_composite_obs)
         if NUMPYsign(vmod)==NUMPYsign(vobs)])/len(list_composite_model)\<close>
\<close>

definition signAgreement :: "real list \<Rightarrow> real list \<Rightarrow> error + real" where
  "signAgreement lm lo =
     (if length lm = 0 then Inl ZeroDivisionError
      else Inr (sum_list (map (\<lambda>_. 1) (filter (\<lambda>(vmod, vobs). sgn vmod = sgn vobs) (zip lm lo)))
                / real (length lm)))"

text \<open>The \<^verbatim>\<open>needed_kwarg\<close> list of the five event metrics.\<close>

definition needed_kwarg_events :: "string list" where
  "needed_kwarg_events =
     [''detrending'', ''frequency'', ''min_time_steps'', ''normalization'', ''smoothing'',
      ''time_bounds_model'', ''time_bounds_obs'']"

text \<open>
  The body of the loop over the regions: the reads and the preprocessing of the
  precipitation of one region, with the keyword arguments current in the loop.
\<close>

definition region_calls :: "kwargs \<Rightarrow> string \<Rightarrow> call list" where
  "region_calls kw reg =
     read_calls kw ''pr_model'' ''pr_obs'' reg @ preprocess_calls kw ''pr_model'' ''pr_obs'' reg"

definition EnsoPrJjaTel :: "inputs \<Rightarrow> error + outcome" where
  "EnsoPrJjaTel d =
     (let kw0 = test_given_kwargs needed_kwarg_events (kwargs d);
          calls_sst = read_calls kw0 ''sst_model'' ''sst_obs'' (region_ev d)
      in case check_time_period (stack d) ''EnsoPrJjaTel'' kw0 (len_model d) (len_obs d) of
           Inl e \<Rightarrow> Inl e
         | Inr _ \<Rightarrow>
            let calls_ev = preprocess_calls kw0 ''sst_model'' ''sst_obs'' (region_ev d);
                smooth = kw0 ''smoothing'';
                kw1 = (case smooth of None \<Rightarrow> kw0 | Some _ \<Rightarrow> kw0(''smoothing'' \<mapsto> PyBool False));
                calls_pr = concat (map (region_calls kw1) (regions d));
                kw2 = (case smooth of None \<Rightarrow> kw1 | Some s \<Rightarrow> kw1(''smoothing'' \<mapsto> s))
            in case signAgreement (list_composite_model d) (list_composite_obs d) of
                 Inl e \<Rightarrow> Inl e
               | Inr sa \<Rightarrow>
                  (case getitem kw2 ''frequency'' of
                     Inl e \<Rightarrow> Inl e
                   | Inr freq \<Rightarrow>
                      Inr \<lparr>result =
                            [(''name'', PyExt ''Name''), (''value'', PyExt ''compositeRmse''),
                             (''value_error'', PyNone), (''units'', PyExt ''Units''),
                             (''method'', PyExt ''Method''), (''value2'', PyFloat sa),
                             (''value_error2'', PyNone), (''units2'', PyStr ''%''),
                             (''nyears_model'', PyExt ''yearN_model''),
                             (''nyears_observations'', PyExt ''yearN_obs''),
                             (''nina_model'', PyExt ''nina_years_model''),
                             (''nino_model'', PyExt ''nino_years_model''),
                             (''nina_observations'', PyExt ''nina_years_obs''),
                             (''nino_observations'', PyExt ''nino_years_obs''),
                             (''time_frequency'', freq),
                             (''time_period_model'', PyExt ''actualtimeboundsmodel''),
                             (''time_period_observations'', PyExt ''actualtimeboundsobs''),
                             (''ref'', PyExt ''Ref''),
                             (''dive_down_diag'',
                                PyDict [(''model'', PyList (map PyFloat (list_composite_model d))),
                                        (''observations'', PyList (map PyFloat (list_composite_obs d))),
                                        (''axis'', PyList (map PyStr (regions d)))])],
                          calls = calls_sst @ calls_ev @ calls_pr,
                          final_kwargs = kw2\<rparr>))"

section \<open>The regridding step\<close>

definition known_args :: "string list" where
  "known_args =
     [''model_orand_obs'', ''newgrid'', ''missing'', ''order'', ''mask'', ''newgrid_name'',
      ''regridder'', ''regridTool'', ''regridMethod'']"

text \<open>
  The block under \<^verbatim>\<open># Regridding\<close>: \<^verbatim>\<open>kwargs['regridding']\<close> is read; when it is a
  dictionary, \<^verbatim>\<open>extra_args = set(kwargs['regridding']) - known_args\<close>, a non-empty
  \<open>extra_args\<close> goes to \<^verbatim>\<open>UnknownKeyArg\<close>, and otherwise \<^verbatim>\<open>TwoVarRegrid\<close> is called with
  the entries of the dictionary as keyword arguments. The result is the list of toolkit
  calls made: the one call of \<^verbatim>\<open>TwoVarRegrid\<close>, or none.
\<close>

definition Regridding :: "string \<Rightarrow> kwargs \<Rightarrow> string \<Rightarrow> string \<Rightarrow> error + call list" where
  "Regridding stk kw v_model bx =
     (case getitem kw ''regridding'' of
        Inl e \<Rightarrow> Inl e
      | Inr r \<Rightarrow>
          (case r of
             PyDict items \<Rightarrow>
               (let extra_args = filter (\<lambda>k. k \<notin> set known_args) (map fst items)
                in if extra_args \<noteq> [] then Inl (UnknownKeyArg extra_args stk)
                   else Inr [Call ''TwoVarRegrid'' v_model bx (map_of items)])
           | _ \<Rightarrow> Inr []))"

section \<open>The root mean square error metrics of a model against observations\<close>

text \<open>
  The nine \<^verbatim>\<open>Bias...Rmse\<close> and the four \<^verbatim>\<open>Seasonal...Rmse\<close> functions are one pipeline:
  fill the keyword arguments, read model and observations, check the length, preprocess,
  regrid, compute the statistic, build the record. They differ in the variable, in the
  averaging and in the RMS function, which the toolkit computes.
\<close>

definition needed_kwarg_rmse :: "string list" where
  "needed_kwarg_rmse =
     [''detrending'', ''frequency'', ''min_time_steps'', ''normalization'', ''regridding'',
      ''smoothing'', ''time_bounds_model'', ''time_bounds_obs'']"

definition rmse_record :: "pyval \<Rightarrow> pyrecord" where
  "rmse_record freq =
     [(''name'', PyExt ''Name''), (''value'', PyExt ''rmse''), (''value_error'', PyNone),
      (''units'', PyExt ''Units''), (''method'', PyExt ''Method''),
      (''nyears_model'', PyExt ''yearN_model''), (''nyears_observations'', PyExt ''yearN_obs''),
      (''time_frequency'', freq),
      (''time_period_model'', PyExt ''actualtimeboundsmodel''),
      (''time_period_observations'', PyExt ''actualtimeboundsobs''),
      (''ref'', PyExt ''Ref''), (''dive_down_diag'', PyExt ''dive_down_diag'')]"

definition rmse_metric :: "string \<Rightarrow> string \<Rightarrow> string \<Rightarrow> inputs \<Rightarrow> error + outcome" where
  "rmse_metric name v_model v_obs d =
     (let kw = test_given_kwargs needed_kwarg_rmse (kwargs d);
          calls_read = read_calls kw v_model v_obs (box d)
      in case check_time_period (stack d) name kw (len_model d) (len_obs d) of
           Inl e \<Rightarrow> Inl e
         | Inr _ \<Rightarrow>
            (let calls_pre = preprocess_calls kw v_model v_obs (box d)
             in case Regridding (stack d) kw v_model (box d) of
                  Inl e \<Rightarrow> Inl e
                | Inr calls_regrid \<Rightarrow>
                   (case getitem kw ''frequency'' of
                      Inl e \<Rightarrow> Inl e
                    | Inr freq \<Rightarrow>
                       Inr \<lparr>result = rmse_record freq,
                            calls = calls_read @ calls_pre @ calls_regrid,
                            final_kwargs = kw\<rparr>)))"

definition BiasSstRmse :: "inputs \<Rightarrow> error + outcome" where
  "BiasSstRmse = rmse_metric ''BiasSstRmse'' ''sst_model'' ''sst_obs''"

definition BiasSstLatRmse :: "inputs \<Rightarrow> error + outcome" where
  "BiasSstLatRmse = rmse_metric ''BiasSstLatRmse'' ''sst_model'' ''sst_obs''"

definition BiasSstLonRmse :: "inputs \<Rightarrow> error + outcome" where
  "BiasSstLonRmse = rmse_metric ''BiasSstLonRmse'' ''sst_model'' ''sst_obs''"

definition BiasPrRmse :: "inputs \<Rightarrow> error + outcome" where
  "BiasPrRmse = rmse_metric ''BiasPrRmse'' ''pr_model'' ''pr_obs''"

definition BiasPrLatRmse :: "inputs \<Rightarrow> error + outcome" where
  "BiasPrLatRmse = rmse_metric ''BiasPrLatRmse'' ''pr_model'' ''pr_obs''"

definition BiasPrLonRmse :: "inputs \<Rightarrow> error + outcome" where
  "BiasPrLonRmse = rmse_metric ''BiasPrLonRmse'' ''pr_model'' ''pr_obs''"

definition BiasTauxRmse :: "inputs \<Rightarrow> error + outcome" where
  "BiasTauxRmse = rmse_metric ''BiasTauxRmse'' ''taux_model'' ''taux_obs''"

definition BiasTauxLatRmse :: "inputs \<Rightarrow> error + outcome" where
  "BiasTauxLatRmse = rmse_metric ''BiasTauxLatRmse'' ''taux_model'' ''taux_obs''"

definition BiasTauxLonRmse :: "inputs \<Rightarrow> error + outcome" where
  "BiasTauxLonRmse = rmse_metric ''BiasTauxLonRmse'' ''taux_model'' ''taux_obs''"

definition SeasonalPrLatRmse :: "inputs \<Rightarrow> error + outcome" where
  "SeasonalPrLatRmse = rmse_metric ''SeasonalPrLatRmse'' ''pr_model'' ''pr_obs''"

definition SeasonalPrLonRmse :: "inputs \<Rightarrow> error + outcome" where
  "SeasonalPrLonRmse = rmse_metric ''SeasonalPrLonRmse'' ''pr_model'' ''pr_obs''"

definition SeasonalSstLatRmse :: "inputs \<Rightarrow> error + outcome" where
  "SeasonalSstLatRmse = rmse_metric ''SeasonalSstLatRmse'' ''sst_model'' ''sst_obs''"

definition SeasonalSstLonRmse :: "inputs \<Rightarrow> error + outcome" where
  "SeasonalSstLonRmse = rmse_metric ''SeasonalSstLonRmse'' ''sst_model'' ''sst_obs''"

section \<open>The feedback metrics\<close>

definition needed_kwarg_one :: "string list" where
  "needed_kwarg_one =
     [''detrending'', ''frequency'', ''min_time_steps'', ''normalization'', ''smoothing'',
      ''time_bounds'']"

text \<open>
  Modelled from the spec: \<^verbatim>\<open>CheckTime\<close> (\<^verbatim>\<open>EnsoUvcdatToolsLib\<close>) is not under src/. The
  six feedback metrics call it as \<^verbatim>\<open>CheckTime(sst, flux, metric_name=..., **kwargs)\<close>
  under the comment that it checks that both variables use the same time period and that
  the minimum number of time steps is respected. By the spec (sections 4.1 and 7) a
  series shorter than an integer \<^verbatim>\<open>min_time_steps\<close> is a fatal too-short time period error
  that names the metric, the actual length and the required minimum. The two lengths
  are those of the series on their common period; the first series is looked at first,
  as in the checks written out in the other metric functions.
\<close>

definition CheckTime :: "nat \<Rightarrow> nat \<Rightarrow> string \<Rightarrow> kwargs \<Rightarrow> string \<Rightarrow> error + unit" where
  "CheckTime n1 n2 metric_name kw stk =
     (case kw ''min_time_steps'' of
        None \<Rightarrow> Inr ()
      | Some mini \<Rightarrow>
          if isinstance_int mini then
            if int n1 < int_value mini then Inl (TooShortTimePeriod metric_name n1 mini stk)
            else if int n2 < int_value mini then Inl (TooShortTimePeriod metric_name n2 mini stk)
            else Inr ()
          else Inr ())"

definition feedback_record :: "pyval \<Rightarrow> pyrecord" where
  "feedback_record freq =
     [(''name'', PyExt ''Name''), (''value'', PyExt ''alpha[0]''),
      (''value_error'', PyExt ''alpha[1]''), (''units'', PyExt ''Units''),
      (''method'', PyExt ''Method''), (''method_nonlinearity'', PyExt ''Method_NL''),
      (''nyears'', PyExt ''yearN''), (''time_frequency'', freq),
      (''time_period'', PyExt ''actualtimebounds''), (''ref'', PyExt ''Ref''),
      (''nonlinearity'', PyExt ''alphaNeg[0] - alphaPos[0]''),
      (''nonlinearity_error'', PyExt ''alphaNeg[1] + alphaPos[1]'')]"

text \<open>
  \<^verbatim>\<open>EnsoAlphaLhf\<close>, \<^verbatim>\<open>EnsoAlphaShf\<close> and \<^verbatim>\<open>EnsoMu\<close> read the second variable directly.
  \<^verbatim>\<open>EnsoAlphaLwr\<close>, \<^verbatim>\<open>EnsoAlphaSwr\<close> and \<^verbatim>\<open>EnsoAlphaThf\<close> derive it with
  \<^verbatim>\<open>MyDerive(kwargs['project_interpreter_var2'], ...)\<close>, a key that the \<^verbatim>\<open>needed_kwarg\<close>
  list does not fill (\<open>derived\<close>).
\<close>

definition feedback_metric :: "string \<Rightarrow> string \<Rightarrow> bool \<Rightarrow> inputs \<Rightarrow> error + outcome" where
  "feedback_metric name flux derived d =
     (let kw = test_given_kwargs needed_kwarg_one (kwargs d);
          calls_var = [Call ''ReadSelectRegionCheckUnits'' ''sst'' (box d) kw,
                       Call ''ReadSelectRegionCheckUnits'' flux (box2 d) kw]
      in case (if derived then getitem kw ''project_interpreter_var2'' else Inr PyNone) of
           Inl e \<Rightarrow> Inl e
         | Inr _ \<Rightarrow>
            (let calls_mask =
                   [Call ''ReadAreaSelectRegion'' ''sst_areacell'' (box d) kw,
                    Call ''ReadAreaSelectRegion'' (flux @ ''_areacell'') (box2 d) kw,
                    Call ''ReadLandmaskSelectRegion'' ''sst_landmask'' (box d) kw,
                    Call ''ReadLandmaskSelectRegion'' (flux @ ''_landmask'') (box2 d) kw,
                    Call ''CheckTime'' ''sst'' (box d) kw]
             in case CheckTime (len_model d) (len_obs d) name kw (stack d) of
                  Inl e \<Rightarrow> Inl e
                | Inr _ \<Rightarrow>
                   (let calls_pre = [Call ''PreProcessTS'' ''sst'' (box d) kw,
                                     Call ''PreProcessTS'' flux (box2 d) kw]
                    in case getitem kw ''frequency'' of
                         Inl e \<Rightarrow> Inl e
                       | Inr freq \<Rightarrow>
                          Inr \<lparr>result = feedback_record freq,
                               calls = calls_var @ calls_mask @ calls_pre,
                               final_kwargs = kw\<rparr>)))"

definition EnsoAlphaLhf :: "inputs \<Rightarrow> error + outcome" where
  "EnsoAlphaLhf = feedback_metric ''EnsoAlphaLhf'' ''lhf'' False"

definition EnsoAlphaLwr :: "inputs \<Rightarrow> error + outcome" where
  "EnsoAlphaLwr = feedback_metric ''EnsoAlphaLwr'' ''lwr'' True"

definition EnsoAlphaShf :: "inputs \<Rightarrow> error + outcome" where
  "EnsoAlphaShf = feedback_metric ''EnsoAlphaShf'' ''shf'' False"

definition EnsoAlphaSwr :: "inputs \<Rightarrow> error + outcome" where
  "EnsoAlphaSwr = feedback_metric ''EnsoAlphaSwr'' ''swr'' True"

definition EnsoAlphaThf :: "inputs \<Rightarrow> error + outcome" where
  "EnsoAlphaThf = feedback_metric ''EnsoAlphaThf'' ''thf'' True"

definition EnsoMu :: "inputs \<Rightarrow> error + outcome" where
  "EnsoMu = feedback_metric ''EnsoMu'' ''taux'' False"

section \<open>EnsoAmpl and EnsoSeasonality\<close>

definition std_record :: "pyval \<Rightarrow> pyrecord" where
  "std_record freq =
     [(''name'', PyExt ''Name''), (''value'', PyExt ''std''), (''value_error'', PyExt ''std_err''),
      (''units'', PyExt ''Units''), (''method'', PyExt ''Method''), (''nyears'', PyExt ''yearN''),
      (''time_frequency'', freq), (''time_period'', PyExt ''actualtimebounds''),
      (''ref'', PyExt ''Ref'')]"

text \<open>
  One series is read; a series shorter than an integer \<^verbatim>\<open>min_time_steps\<close> goes to
  \<^verbatim>\<open>TooShortTimePeriod(name, len(sst), kwargs['min_time_steps'], INSPECTstack())\<close>.
\<close>

definition std_metric :: "string \<Rightarrow> inputs \<Rightarrow> error + outcome" where
  "std_metric name d =
     (let kw = test_given_kwargs needed_kwarg_one (kwargs d);
          calls_read = [Call ''ReadSelectRegionCheckUnits'' ''sst'' (box d) kw,
                        Call ''ReadAreaSelectRegion'' ''sst_areacell'' (box d) kw,
                        Call ''ReadLandmaskSelectRegion'' ''sst_landmask'' (box d) kw]
      in case getitem kw ''min_time_steps'' of
           Inl e \<Rightarrow> Inl e
         | Inr mini \<Rightarrow>
            if isinstance_int mini \<and> int (len_model d) < int_value mini
            then Inl (TooShortTimePeriod name (len_model d) mini (stack d))
            else (case getitem kw ''frequency'' of
                    Inl e \<Rightarrow> Inl e
                  | Inr freq \<Rightarrow>
                     Inr \<lparr>result = std_record freq,
                          calls = calls_read @ [Call ''PreProcessTS'' ''sst'' (box d) kw],
                          final_kwargs = kw\<rparr>))"

definition EnsoAmpl :: "inputs \<Rightarrow> error + outcome" where
  "EnsoAmpl = std_metric ''EnsoAmpl''"

definition EnsoSeasonality :: "inputs \<Rightarrow> error + outcome" where
  "EnsoSeasonality = std_metric ''EnsoSeasonality''"

section \<open>The composite metrics of La Nina and El Nino events\<close>

definition event_record :: "pyval \<Rightarrow> pyrecord" where
  "event_record freq =
     [(''name'', PyExt ''Name''), (''value'', PyExt ''compositeRmse''), (''value_error'', PyNone),
      (''units'', PyExt ''Units''), (''method'', PyExt ''Method''),
      (''nyears_model'', PyExt ''yearN_model''), (''nyears_observations'', PyExt ''yearN_obs''),
      (''events_model'', PyExt ''event_years_model''),
      (''events_observations'', PyExt ''event_years_obs''),
      (''time_frequency'', freq),
      (''time_period_model'', PyExt ''actualtimeboundsmodel''),
      (''time_period_observations'', PyExt ''actualtimeboundsobs''),
      (''ref'', PyExt ''Ref''), (''dive_down_diag'', PyExt ''dive_down_diag'')]"

text \<open>
  \<^verbatim>\<open>NinaSstLonRmse\<close> and \<^verbatim>\<open>NinoSstLonRmse\<close>: the events are detected on the SST of
  \<open>region_ev\<close>, the SST of \<open>box\<close> is read again, preprocessed, regridded and
  composited. The \<^verbatim>\<open>needed_kwarg\<close> list is that of the event metrics, without
  \<^verbatim>\<open>regridding\<close>.
\<close>

definition lon_composite_metric :: "string \<Rightarrow> inputs \<Rightarrow> error + outcome" where
  "lon_composite_metric name d =
     (let kw = test_given_kwargs needed_kwarg_events (kwargs d);
          calls_ev = read_calls kw ''sst_model'' ''sst_obs'' (region_ev d)
      in case check_time_period (stack d) name kw (len_model d) (len_obs d) of
           Inl e \<Rightarrow> Inl e
         | Inr _ \<Rightarrow>
            (let calls_pre = preprocess_calls kw ''sst_model'' ''sst_obs'' (region_ev d);
                 calls_box = read_calls kw ''sst_model'' ''sst_obs'' (box d)
                               @ preprocess_calls kw ''sst_model'' ''sst_obs'' (box d)
             in case Regridding (stack d) kw ''sst_model'' (box d) of
                  Inl e \<Rightarrow> Inl e
                | Inr calls_regrid \<Rightarrow>
                   (case getitem kw ''frequency'' of
                      Inl e \<Rightarrow> Inl e
                    | Inr freq \<Rightarrow>
                       Inr \<lparr>result = event_record freq,
                            calls = calls_ev @ calls_pre @ calls_box @ calls_regrid,
                            final_kwargs = kw\<rparr>)))"

definition NinaSstLonRmse :: "inputs \<Rightarrow> error + outcome" where
  "NinaSstLonRmse = lon_composite_metric ''NinaSstLonRmse''"

definition NinoSstLonRmse :: "inputs \<Rightarrow> error + outcome" where
  "NinoSstLonRmse = lon_composite_metric ''NinoSstLonRmse''"

text \<open>
  \<^verbatim>\<open>NinaSstTsRmse\<close> and \<^verbatim>\<open>NinoSstTsRmse\<close>: the SST of \<open>region_ev\<close> serves both the
  detection and the composite over a window of years; there is no regridding step.
\<close>

definition ts_composite_metric :: "string \<Rightarrow> inputs \<Rightarrow> error + outcome" where
  "ts_composite_metric name d =
     (let kw = test_given_kwargs needed_kwarg_events (kwargs d);
          calls_ev = read_calls kw ''sst_model'' ''sst_obs'' (region_ev d)
      in case check_time_period (stack d) name kw (len_model d) (len_obs d) of
           Inl e \<Rightarrow> Inl e
         | Inr _ \<Rightarrow>
            (case getitem kw ''frequency'' of
               Inl e \<Rightarrow> Inl e
             | Inr freq \<Rightarrow>
                Inr \<lparr>result = event_record freq,
                     calls = calls_ev @ preprocess_calls kw ''sst_model'' ''sst_obs'' (region_ev d),
                     final_kwargs = kw\<rparr>))"

definition NinaSstTsRmse :: "inputs \<Rightarrow> error + outcome" where
  "NinaSstTsRmse = ts_composite_metric ''NinaSstTsRmse''"

definition NinoSstTsRmse :: "inputs \<Rightarrow> error + outcome" where
  "NinoSstTsRmse = ts_composite_metric ''NinoSstTsRmse''"

section \<open>The catalogue of metric functions\<close>

text \<open>Every function of \<^verbatim>\<open>EnsoMetricsLib.py\<close>, with its name, in the order of the file.\<close>

definition metric_functions :: "(string \<times> (inputs \<Rightarrow> error + outcome)) list" where
  "metric_functions =
     [(''BiasSstRmse'', BiasSstRmse), (''BiasSstLatRmse'', BiasSstLatRmse),
      (''BiasSstLonRmse'', BiasSstLonRmse), (''BiasPrRmse'', BiasPrRmse),
      (''BiasPrLatRmse'', BiasPrLatRmse), (''BiasPrLonRmse'', BiasPrLonRmse),
      (''BiasTauxRmse'', BiasTauxRmse), (''BiasTauxLatRmse'', BiasTauxLatRmse),
      (''BiasTauxLonRmse'', BiasTauxLonRmse), (''EnsoAlphaLhf'', EnsoAlphaLhf),
      (''EnsoAlphaLwr'', EnsoAlphaLwr), (''EnsoAlphaShf'', EnsoAlphaShf),
      (''EnsoAlphaSwr'', EnsoAlphaSwr), (''EnsoAlphaThf'', EnsoAlphaThf),
      (''EnsoAmpl'', EnsoAmpl), (''EnsoMu'', EnsoMu), (''EnsoPrJjaTel'', EnsoPrJjaTel),
      (''EnsoSeasonality'', EnsoSeasonality), (''NinaSstLonRmse'', NinaSstLonRmse),
      (''NinoSstLonRmse'', NinoSstLonRmse), (''NinaSstTsRmse'', NinaSstTsRmse),
      (''NinoSstTsRmse'', NinoSstTsRmse), (''SeasonalPrLatRmse'', SeasonalPrLatRmse),
      (''SeasonalPrLonRmse'', SeasonalPrLonRmse), (''SeasonalSstLatRmse'', SeasonalSstLatRmse),
      (''SeasonalSstLonRmse'', SeasonalSstLonRmse)]"

text \<open>
  The functions by pipeline. The names in \<open>derived_flux_metrics\<close> are the feedback
  metrics that read \<^verbatim>\<open>kwargs['project_interpreter_var2']\<close>; those in
  \<open>regridding_metrics\<close> are the functions with a \<^verbatim>\<open># Regridding\<close> block.
\<close>

definition rmse_metrics :: "string list" where
  "rmse_metrics =
     [''BiasSstRmse'', ''BiasSstLatRmse'', ''BiasSstLonRmse'', ''BiasPrRmse'', ''BiasPrLatRmse'',
      ''BiasPrLonRmse'', ''BiasTauxRmse'', ''BiasTauxLatRmse'', ''BiasTauxLonRmse'',
      ''SeasonalPrLatRmse'', ''SeasonalPrLonRmse'', ''SeasonalSstLatRmse'',
      ''SeasonalSstLonRmse'']"

definition feedback_metrics :: "string list" where
  "feedback_metrics =
     [''EnsoAlphaLhf'', ''EnsoAlphaLwr'', ''EnsoAlphaShf'', ''EnsoAlphaSwr'', ''EnsoAlphaThf'',
      ''EnsoMu'']"

definition derived_flux_metrics :: "string list" where
  "derived_flux_metrics = [''EnsoAlphaLwr'', ''EnsoAlphaSwr'', ''EnsoAlphaThf'']"

definition one_series_metrics :: "string list" where
  "one_series_metrics = [''EnsoAmpl'', ''EnsoSeasonality'']"

definition lon_composite_metrics :: "string list" where
  "lon_composite_metrics = [''NinaSstLonRmse'', ''NinoSstLonRmse'']"

definition ts_composite_metrics :: "string list" where
  "ts_composite_metrics = [''NinaSstTsRmse'', ''NinoSstTsRmse'']"

definition regridding_metrics :: "string list" where
  "regridding_metrics = rmse_metrics @ lon_composite_metrics"

definition family :: "string \<Rightarrow> (inputs \<Rightarrow> error + outcome) \<Rightarrow> bool" where
  "family name f \<longleftrightarrow>
     (name \<in> set rmse_metrics \<and> (\<exists>v_model v_obs. f = rmse_metric name v_model v_obs))
   \<or> (name \<in> set feedback_metrics
        \<and> (\<exists>flux. f = feedback_metric name flux (name \<in> set derived_flux_metrics)))
   \<or> (name \<in> set one_series_metrics \<and> f = std_metric name)
   \<or> (name = ''EnsoPrJjaTel'' \<and> f = EnsoPrJjaTel)
   \<or> (name \<in> set lon_composite_metrics \<and> f = lon_composite_metric name)
   \<or> (name \<in> set ts_composite_metrics \<and> f = ts_composite_metric name)"

text \<open>The errors of the length check.\<close>

fun too_short :: "error \<Rightarrow> bool" where
  "too_short (MyError _) = True"
| "too_short (TooShortTimePeriod _ _ _ _) = True"
| "too_short _ = False"

text \<open>
  A call is long enough when an integer \<^verbatim>\<open>min_time_steps\<close>, if given, does not exceed the
  length of either series. What the caller sees of a call is the error or the returned
  record.
\<close>

definition long_enough :: "inputs \<Rightarrow> bool" where
  "long_enough d \<longleftrightarrow>
     (\<forall>mini. kwargs d ''min_time_steps'' = Some mini \<and> isinstance_int mini \<longrightarrow>
        int_value mini \<le> int (len_model d) \<and> int_value mini \<le> int (len_obs d))"

definition returned :: "error + outcome \<Rightarrow> error + pyrecord" where
  "returned r = (case r of Inl e \<Rightarrow> Inl e | Inr out \<Rightarrow> Inr (result out))"

text \<open>
  The keys of the returned records: those every record has, those of the number of years
  and the time period of one dataset or of model and observations, and the others.
\<close>

definition common_keys :: "string list" where
  "common_keys = [''name'', ''value'', ''value_error'', ''units'', ''method'', ''time_frequency'', ''ref'']"

definition one_dataset_keys :: "string list" where
  "one_dataset_keys = [''nyears'', ''time_period'']"

definition two_dataset_keys :: "string list" where
  "two_dataset_keys =
     [''nyears_model'', ''nyears_observations'', ''time_period_model'', ''time_period_observations'']"

definition optional_keys :: "string list" where
  "optional_keys =
     [''method_nonlinearity'', ''nonlinearity'', ''nonlinearity_error'', ''value2'', ''value_error2'',
      ''units2'', ''nina_model'', ''nino_model'', ''nina_observations'', ''nino_observations'',
      ''events_model'', ''events_observations'', ''dive_down_diag'']"

definition result_keys :: "outcome \<Rightarrow> string list" where
  "result_keys out = map fst (result out)"

definition returned_keys :: "error + outcome \<Rightarrow> string list option" where
  "returned_keys r = (case r of Inl _ \<Rightarrow> None | Inr out \<Rightarrow> Some (result_keys out))"

section \<open>The plotting driver\<close>

text \<open>
  \<^verbatim>\<open>driver_portraitplot.py\<close> reads, for each project and metric collection, one JSON file
  and takes one number for each model and metric. A parsed JSON document:
\<close>

datatype json =
    JNull
  | JBool bool
  | JNum real
  | JStr string
  | JArr "json list"
  | JObj "(string \<times> json) list"






















section \<open>Event detection and compositing\<close>

text \<open>
  A monthly series is the list of its values, the first one that of January of
  \<open>first_year\<close>. The mean of a list and its standard deviation over the whole record, the
  squared deviations from the mean being divided by the number of values.
\<close>

definition mean :: "real list \<Rightarrow> real" where
  "mean xs = sum_list xs / real (length xs)"

definition Std :: "real list \<Rightarrow> real" where
  "Std xs = sqrt (sum_list (map (\<lambda>x. (x - mean xs)\<^sup>2) xs) / real (length xs))"

text \<open>
  A season is the list of its calendar months (1 to 12) in order, \<open>[12, 1, 2]\<close> for DJF.
  \<open>season_offsets\<close> counts each month from January of the event year: a month that follows
  a later calendar month of the season belongs to the next year, so that the year of a
  season that spans a year boundary is the year of its December.
\<close>

definition season_offsets :: "nat list \<Rightarrow> nat list" where
  "season_offsets season =
     map (\<lambda>i. let m = season ! i
              in if \<exists>m' \<in> set (take i season). m < m' then m + 11 else m - 1)
         [0..<length season]"

text \<open>
  The value of year \<open>y\<close>: the average of the months of the season, for a year whose season
  lies within the record. The spec does not say what a year whose season is cut by the
  bounds of the record gives; here it has no value.
\<close>

definition seasonal_value :: "real list \<Rightarrow> int \<Rightarrow> nat list \<Rightarrow> int \<Rightarrow> real option" where
  "seasonal_value index_series first_year season y =
     (let months = map (\<lambda>off. 12 * (y - first_year) + int off) (season_offsets season)
      in if season \<noteq> [] \<and> (\<forall>m \<in> set season. 1 \<le> m \<and> m \<le> 12)
            \<and> (\<forall>i \<in> set months. 0 \<le> i \<and> i < int (length index_series))
         then Some (mean (map (\<lambda>i. index_series ! nat i) months))
         else None)"

definition record_years :: "real list \<Rightarrow> int \<Rightarrow> int list" where
  "record_years index_series first_year =
     map (\<lambda>k. first_year + int k) [0..<(length index_series + 11) div 12]"

text \<open>The value that is compared with the threshold.\<close>

definition compared :: "real list \<Rightarrow> bool \<Rightarrow> real \<Rightarrow> real" where
  "compared index_series normalization v = (if normalization then v / Std index_series else v)"

text \<open>
  Modelled from the spec: \<^verbatim>\<open>DetectEvents\<close> (\<^verbatim>\<open>EnsoUvcdatToolsLib\<close>) is not under src/; the
  metric functions call it as
  \<^verbatim>\<open>DetectEvents(sst, season_ev, threshold, normalization=..., nino=...)\<close>. By the spec
  (section 4.2) it reduces the monthly series to one value per year by averaging the
  months of the season; a year is an event when its value is \<open>\<ge> threshold\<close> (warm sign,
  \<^verbatim>\<open>nino=True\<close>) or \<open>\<le> threshold\<close> (cold sign), the value being first divided by the standard
  deviation of the series when normalization is asked for; the years are returned in
  ascending order, without duplicates, and there may be none.
\<close>

definition DetectEvents :: "real list \<Rightarrow> int \<Rightarrow> nat list \<Rightarrow> real \<Rightarrow> bool \<Rightarrow> bool \<Rightarrow> int list" where
  "DetectEvents index_series first_year season threshold normalization nino =
     filter (\<lambda>y. case seasonal_value index_series first_year season y of
                   None \<Rightarrow> False
                 | Some v \<Rightarrow>
                     if nino then threshold \<le> compared index_series normalization v
                     else compared index_series normalization v \<le> threshold)
       (record_years index_series first_year)"

text \<open>
  The window of \<open>12 * W\<close> months of an event year: it starts \<open>12 * (W div 2) + 11\<close> months
  before the December of the year, and lies in the record when it neither starts before
  the first month nor ends after the last.
\<close>

definition december :: "int \<Rightarrow> int \<Rightarrow> int" where
  "december first_year y = 12 * (y - first_year) + 11"

definition window_start :: "int \<Rightarrow> nat \<Rightarrow> int \<Rightarrow> int" where
  "window_start first_year W y = december first_year y - (12 * int (W div 2) + 11)"

definition in_record :: "real list \<Rightarrow> int \<Rightarrow> nat \<Rightarrow> int \<Rightarrow> bool" where
  "in_record field_series first_year W y \<longleftrightarrow>
     0 \<le> window_start first_year W y
     \<and> window_start first_year W y + 12 * int W \<le> int (length field_series)"

definition window :: "real list \<Rightarrow> int \<Rightarrow> nat \<Rightarrow> int \<Rightarrow> real list" where
  "window field_series first_year W y =
     take (12 * W) (drop (nat (window_start first_year W y)) field_series)"

text \<open>
  The mean of \<open>n\<close>-point extracts, point by point. The mean of no extract is undefined at
  each point: \<open>None\<close> stands for the not-a-number of the arrays.
\<close>

definition pointwise_mean :: "nat \<Rightarrow> real list list \<Rightarrow> real option list" where
  "pointwise_mean n extracts =
     (if extracts = [] then replicate n None
      else map (\<lambda>k. Some (mean (map (\<lambda>w. w ! k) extracts))) [0..<n])"

definition retained :: "real list \<Rightarrow> int \<Rightarrow> nat \<Rightarrow> int list \<Rightarrow> int list" where
  "retained field_series first_year W event_years =
     filter (in_record field_series first_year W) event_years"

text \<open>
  Modelled from the spec: \<^verbatim>\<open>Composite\<close> (\<^verbatim>\<open>EnsoUvcdatToolsLib\<close>) is not under src/; the time
  series metrics call it as
  \<^verbatim>\<open>Composite(sst, event_years, kwargs['frequency'], nbr_years_window=nbr_years_window)\<close>.
  This is its windowed mode by the spec (section 4.3): for each event year, the \<open>12 * W\<close>
  consecutive monthly values that put the December of the year at position
  \<open>12 * (W div 2) + 11\<close>; the years whose window exceeds the bounds of the record are left
  out; the result is the pointwise mean of the retained windows, undefined when none is
  retained. The spec gives the frequency argument no role.
\<close>

definition Composite :: "real list \<Rightarrow> int \<Rightarrow> int list \<Rightarrow> nat \<Rightarrow> real option list" where
  "Composite field_series first_year event_years W =
     pointwise_mean (12 * W)
       (map (window field_series first_year W) (retained field_series first_year W event_years))"

section \<open>Example inputs\<close>

text \<open>A call of EnsoPrJjaTel with a smoothing dictionary, on two regions.\<close>

definition tel_example :: inputs where
  "tel_example =
     \<lparr>kwargs = [''smoothing'' \<mapsto> PyDict [(''window'', PyInt 5)], ''min_time_steps'' \<mapsto> PyInt 204],
      stack = ''driver'', len_model = 1800, len_obs = 360, box = ''nino3'', box2 = ''nino4'', region_ev = ''nino3'',
      prbox = BoxList [''SAH'', ''amz''],
      composite_of = (\<lambda>which reg.
         if reg = ''amz'' then (if which = ''composite_nino_model'' then 1
                                else if which = ''composite_nina_model'' then 3
                                else if which = ''composite_nino_obs'' then 2 else 5)
         else (if which = ''composite_nino_model'' then 4
               else if which = ''composite_nina_model'' then 1
               else if which = ''composite_nino_obs'' then 0 else 2))\<rparr>"

text \<open>The same call with a regridding dictionary that holds a misspelt key.\<close>

definition regrid_example :: inputs where
  "regrid_example =
     tel_example\<lparr>kwargs := [''regridding'' \<mapsto>
        PyDict [(''regridTool'', PyStr ''esmf''), (''newgrd'', PyStr ''generic_1x1deg'')]]\<rparr>"




text \<open>
  A ten-year series whose DJF values of years 1, 2 and 3 are \<open>3/4 - 1/4\<close>, \<open>3/4\<close> and
  \<open>3/4 + 1/4\<close>, all others being 0; a two-year series of standard deviation \<open>1/2\<close> whose
  DJF value of year 1 is \<open>1/2\<close>; and a five-year series that holds the number of each
  month.
\<close>

definition DJF :: "nat list" where
  "DJF = [12, 1, 2]"

definition djf_example :: "real list" where
  "djf_example =
     replicate 11 0 @ replicate 3 (1 / 2) @ replicate 9 0 @ replicate 3 (3 / 4) @ replicate 9 0
       @ replicate 3 1 @ replicate 82 0"

definition normalized_example :: "real list" where
  "normalized_example =
     replicate 9 (1 / 2) @ replicate 2 (- 1 / 2) @ replicate 3 (1 / 2) @ replicate 10 (- 1 / 2)"

definition five_years :: "real list" where
  "five_years = map real [0..<60]"

section \<open>Facts about the keyword arguments and the sign agreement\<close>

lemma test_given_kwargs_keeps:
  "kw k = Some v \<Longrightarrow> test_given_kwargs needed kw k = Some v"
  unfolding test_given_kwargs_def
proof (induction needed arbitrary: kw)
  case Nil
  then show ?case by simp
next
  case (Cons a needed)
  have "(case kw a of None \<Rightarrow> kw(a \<mapsto> DefaultArgValues a) | Some _ \<Rightarrow> kw) k = Some v"
    using Cons.prems by (cases "kw a") auto
  then show ?case using Cons.IH by simp
qed

lemma test_given_kwargs_other:
  "k \<notin> set needed \<Longrightarrow> test_given_kwargs needed kw k = kw k"
  unfolding test_given_kwargs_def
proof (induction needed arbitrary: kw)
  case Nil
  then show ?case by simp
next
  case (Cons a needed)
  have "(case kw a of None \<Rightarrow> kw(a \<mapsto> DefaultArgValues a) | Some _ \<Rightarrow> kw) k = kw k"
    using Cons.prems by (cases "kw a") auto
  then show ?case using Cons.IH Cons.prems by simp
qed

lemma test_given_kwargs_default:
  "k \<in> set needed \<Longrightarrow> kw k = None \<Longrightarrow> test_given_kwargs needed kw k = Some (DefaultArgValues k)"
  unfolding test_given_kwargs_def
proof (induction needed arbitrary: kw)
  case Nil
  then show ?case by simp
next
  case (Cons a needed)
  show ?case
  proof (cases "a = k")
    case True
    have "foldl (\<lambda>k arg. case k arg of None \<Rightarrow> k(arg \<mapsto> DefaultArgValues arg) | Some _ \<Rightarrow> k) (kw(k \<mapsto> DefaultArgValues k)) needed k = Some (DefaultArgValues k)"
      using test_given_kwargs_keeps[of "kw(k \<mapsto> DefaultArgValues k)" k "DefaultArgValues k" needed]
      by (simp add: test_given_kwargs_def)
    with True Cons.prems show ?thesis by simp
  next
    case False
    with Cons.prems have "k \<in> set needed" by simp
    moreover have "(case kw a of None \<Rightarrow> kw(a \<mapsto> DefaultArgValues a) | Some _ \<Rightarrow> kw) k = None"
      using False Cons.prems by (simp split: option.splits)
    ultimately show ?thesis using Cons.IH by simp
  qed
qed

lemma test_given_kwargs_present:
  "k \<in> set needed \<Longrightarrow> \<exists>v. test_given_kwargs needed kw k = Some v"
  by (cases "kw k") (auto simp: test_given_kwargs_default test_given_kwargs_keeps)

lemma sum_list_ones: "sum_list (map (\<lambda>_. 1::real) xs) = real (length xs)"
  by (induction xs) auto

lemma signAgreement_fraction:
  "lm \<noteq> [] \<Longrightarrow> signAgreement lm lo =
     Inr (real (length (filter (\<lambda>(vmod, vobs). sgn vmod = sgn vobs) (zip lm lo))) / real (length lm))"
  by (simp add: signAgreement_def sum_list_ones)

lemma agree_count_le:
  "length (filter P (zip lm lo)) \<le> length lm"
  by (rule order_trans[OF length_filter_le]) simp

lemma agree_all_same: "filter (\<lambda>(vmod, vobs). sgn vmod = sgn vobs) (zip lm lm) = zip lm lm"
  by (induction lm) auto

lemma agree_none_negated:
  "(0::real) \<notin> set lm \<Longrightarrow> filter (\<lambda>(vmod, vobs). sgn vmod = sgn vobs) (zip lm (map uminus lm)) = []"
  by (induction lm) (auto simp: sgn_if)

lemma frequency_present:
  "\<exists>v. test_given_kwargs needed_kwarg_events kw ''frequency'' = Some v"
  by (rule test_given_kwargs_present) (simp add: needed_kwarg_events_def)

lemma smoothing_present:
  "\<exists>v. test_given_kwargs needed_kwarg_events kw ''smoothing'' = Some v"
  by (rule test_given_kwargs_present) (simp add: needed_kwarg_events_def)

lemma length_list_composite_model [simp]: "length (list_composite_model d) = length (regions d)"
  by (simp add: list_composite_model_def)

section \<open>Facts about the example call of EnsoPrJjaTel\<close>

lemma regions_tel_example: "regions tel_example = [''amz'', ''SAH'']"
  by code_simp

lemma check_tel_example:
  "check_time_period (stack tel_example) ''EnsoPrJjaTel''
     (test_given_kwargs needed_kwarg_events (kwargs tel_example))
     (len_model tel_example) (len_obs tel_example) = Inr ()"
  by (simp add: check_time_period_def test_given_kwargs_def needed_kwarg_events_def
      tel_example_def getitem_def)

lemma lists_tel_example:
  "list_composite_model tel_example = [-2, 3]" "list_composite_obs tel_example = [-3, -2]"
  by (simp_all add: list_composite_model_def list_composite_obs_def regions_tel_example)
     (simp_all add: tel_example_def)

lemma long_enough_regrid_example: "long_enough regrid_example"
  by (simp add: long_enough_def regrid_example_def)

section \<open>The sign agreement of EnsoPrJjaTel\<close>

text \<open>
  Claim C5. The second statistic of \<^verbatim>\<open>EnsoPrJjaTel\<close>, returned under the key
  \<^verbatim>\<open>value2\<close>, is the number of regions whose model and observed composite differences
  have the same sign, divided by the number of regions. For a call with a non-empty
  region list that passes the length check the function returns, the fraction lies
  between 0 and 1, it is 1 when the two lists of differences are the same, and it is 0
  when one is the negation of the other and no difference is zero.
\<close>

theorem EnsoPrJjaTel_value2_sign_agreement:
  assumes "regions d \<noteq> []"
    and "check_time_period (stack d) ''EnsoPrJjaTel''
           (test_given_kwargs needed_kwarg_events (kwargs d)) (len_model d) (len_obs d) = Inr ()"
  shows "\<exists>out v. EnsoPrJjaTel d = Inr out
           \<and> map_of (result out) ''value2'' = Some (PyFloat v)
           \<and> v = real (length (filter (\<lambda>(vmod, vobs). sgn vmod = sgn vobs)
                                  (zip (list_composite_model d) (list_composite_obs d))))
                 / real (length (regions d))
           \<and> 0 \<le> v \<and> v \<le> 1
           \<and> (list_composite_obs d = list_composite_model d \<longrightarrow> v = 1)
           \<and> (list_composite_obs d = map uminus (list_composite_model d)
                \<and> 0 \<notin> set (list_composite_model d) \<longrightarrow> v = 0)"
proof -
  let ?kw0 = "test_given_kwargs needed_kwarg_events (kwargs d)"
  let ?lm = "list_composite_model d" and ?lo = "list_composite_obs d"
  let ?n = "length (filter (\<lambda>(vmod, vobs). sgn vmod = sgn vobs) (zip ?lm ?lo))"
  let ?v = "real ?n / real (length (regions d))"
  obtain s where s: "?kw0 ''smoothing'' = Some s" using smoothing_present by blast
  obtain f where f: "?kw0 ''frequency'' = Some f" using frequency_present by blast
  have ne: "?lm \<noteq> []" using assms(1) by (simp add: list_composite_model_def)
  have sa: "signAgreement ?lm ?lo = Inr ?v"
    using signAgreement_fraction[OF ne] by simp
  have pos: "0 < real (length (regions d))" using assms(1) by simp
  have le: "?n \<le> length (regions d)"
    using agree_count_le[of _ ?lm ?lo] by simp
  have b0: "0 \<le> ?v" by simp
  have b1: "?v \<le> 1" using le pos by (simp add: divide_le_eq_1)
  have same: "?lo = ?lm \<Longrightarrow> ?v = 1"
    using pos by (simp add: agree_all_same)
  have neg: "?lo = map uminus ?lm \<Longrightarrow> 0 \<notin> set ?lm \<Longrightarrow> ?v = 0"
    by (simp add: agree_none_negated)
  have run: "\<exists>out. EnsoPrJjaTel d = Inr out \<and> map_of (result out) ''value2'' = Some (PyFloat ?v)"
    using assms(2) s f sa by (simp add: EnsoPrJjaTel_def Let_def getitem_def)
  then obtain out where "EnsoPrJjaTel d = Inr out"
    and "map_of (result out) ''value2'' = Some (PyFloat ?v)" by blast
  with b0 b1 same neg show ?thesis by blast
qed

theorem EnsoPrJjaTel_value2_sign_agreement_witness:
  "\<exists>out. EnsoPrJjaTel tel_example = Inr out
     \<and> map_of (result out) ''value2'' = Some (PyFloat (1 / 2))"
proof -
  have h1: "regions tel_example \<noteq> []" by (simp add: regions_tel_example)
  from EnsoPrJjaTel_value2_sign_agreement [OF h1 check_tel_example]
  show ?thesis by (auto simp: lists_tel_example regions_tel_example)
qed

section \<open>The smoothing option in EnsoPrJjaTel\<close>

lemma region_calls_smoothing:
  "c \<in> set (region_calls kw reg) \<Longrightarrow> passed c = kw \<and> region c = reg"
  by (auto simp: region_calls_def read_calls_def preprocess_calls_def)

text \<open>
  Claim C10. \<^verbatim>\<open>EnsoPrJjaTel\<close> sets \<^verbatim>\<open>kwargs['smoothing']\<close> to \<^verbatim>\<open>False\<close> for the reads and
  the preprocessing of the precipitation in every region and restores the caller's value
  before it returns: the toolkit calls of the event detection get the caller's smoothing
  option, every toolkit call of the precipitation phase gets \<^verbatim>\<open>False\<close>, and the keyword
  arguments at the return are those at the start of the body, so the entry \<^verbatim>\<open>smoothing\<close>
  is the value passed in.
\<close>

theorem EnsoPrJjaTel_smoothing_restored:
  assumes "regions d \<noteq> []"
    and "check_time_period (stack d) ''EnsoPrJjaTel''
           (test_given_kwargs needed_kwarg_events (kwargs d)) (len_model d) (len_obs d) = Inr ()"
  shows "\<exists>out ev pr kw0.
           EnsoPrJjaTel d = Inr out
         \<and> kw0 = test_given_kwargs needed_kwarg_events (kwargs d)
         \<and> calls out = ev @ pr
         \<and> ev = read_calls kw0 ''sst_model'' ''sst_obs'' (region_ev d)
                @ preprocess_calls kw0 ''sst_model'' ''sst_obs'' (region_ev d)
         \<and> pr = concat (map (region_calls (kw0(''smoothing'' \<mapsto> PyBool False))) (regions d))
         \<and> (\<forall>c \<in> set pr. passed c ''smoothing'' = Some (PyBool False))
         \<and> (\<forall>c \<in> set ev. passed c ''smoothing'' = kw0 ''smoothing'')
         \<and> final_kwargs out = kw0
         \<and> (\<forall>v. kwargs d ''smoothing'' = Some v \<longrightarrow> final_kwargs out ''smoothing'' = Some v)"
proof -
  let ?kw0 = "test_given_kwargs needed_kwarg_events (kwargs d)"
  let ?kw1 = "?kw0(''smoothing'' \<mapsto> PyBool False)"
  let ?ev = "read_calls ?kw0 ''sst_model'' ''sst_obs'' (region_ev d)
               @ preprocess_calls ?kw0 ''sst_model'' ''sst_obs'' (region_ev d)"
  let ?pr = "concat (map (region_calls ?kw1) (regions d))"
  obtain s where s: "?kw0 ''smoothing'' = Some s" using smoothing_present by blast
  obtain f where f: "?kw0 ''frequency'' = Some f" using frequency_present by blast
  have ne: "list_composite_model d \<noteq> []" using assms(1) by (simp add: list_composite_model_def)
  have undo: "?kw1(''smoothing'' \<mapsto> s) = ?kw0" using s by (auto simp: fun_eq_iff)
  obtain v where sa: "signAgreement (list_composite_model d) (list_composite_obs d) = Inr v"
    using signAgreement_fraction[OF ne] by blast
  have run: "\<exists>out. EnsoPrJjaTel d = Inr out \<and> calls out = ?ev @ ?pr \<and> final_kwargs out = ?kw0"
    using assms(2) s f sa undo by (simp add: EnsoPrJjaTel_def Let_def getitem_def)
  have pr: "\<forall>c \<in> set ?pr. passed c ''smoothing'' = Some (PyBool False)"
    by (auto dest: region_calls_smoothing)
  have ev: "\<forall>c \<in> set ?ev. passed c ''smoothing'' = ?kw0 ''smoothing''"
    by (auto simp: read_calls_def preprocess_calls_def)
  have keep: "\<forall>v. kwargs d ''smoothing'' = Some v \<longrightarrow> ?kw0 ''smoothing'' = Some v"
    by (simp add: test_given_kwargs_keeps)
  from run obtain out where "EnsoPrJjaTel d = Inr out" "calls out = ?ev @ ?pr" "final_kwargs out = ?kw0"
    by blast
  with pr ev keep show ?thesis by (intro exI[of _ out] exI[of _ ?ev] exI[of _ ?pr] exI[of _ ?kw0]) simp
qed

theorem EnsoPrJjaTel_smoothing_restored_witness:
  "\<exists>out. EnsoPrJjaTel tel_example = Inr out
     \<and> final_kwargs out ''smoothing'' = Some (PyDict [(''window'', PyInt 5)])
     \<and> (\<forall>c \<in> set (drop 8 (calls out)). passed c ''smoothing'' = Some (PyBool False))"
proof -
  have h1: "regions tel_example \<noteq> []" by (simp add: regions_tel_example)
  have k: "kwargs tel_example ''smoothing'' = Some (PyDict [(''window'', PyInt 5)])"
    by (simp add: tel_example_def)
  from EnsoPrJjaTel_smoothing_restored [OF h1 check_tel_example]
  obtain out ev pr kw0 where o: "EnsoPrJjaTel tel_example = Inr out"
    and c: "calls out = ev @ pr"
    and e: "ev = read_calls kw0 ''sst_model'' ''sst_obs'' (region_ev tel_example)
                @ preprocess_calls kw0 ''sst_model'' ''sst_obs'' (region_ev tel_example)"
    and p: "\<forall>c \<in> set pr. passed c ''smoothing'' = Some (PyBool False)"
    and f: "\<forall>v. kwargs tel_example ''smoothing'' = Some v \<longrightarrow> final_kwargs out ''smoothing'' = Some v"
    by blast
  have "length ev = 8" using e by (simp add: read_calls_def preprocess_calls_def)
  then have "drop 8 (calls out) = pr" using c by simp
  with o p f k show ?thesis by auto
qed

section \<open>Facts about the catalogue\<close>

lemmas metric_function_defs =
    BiasSstRmse_def BiasSstLatRmse_def BiasSstLonRmse_def BiasPrRmse_def BiasPrLatRmse_def
    BiasPrLonRmse_def BiasTauxRmse_def BiasTauxLatRmse_def BiasTauxLonRmse_def
    SeasonalPrLatRmse_def SeasonalPrLonRmse_def SeasonalSstLatRmse_def SeasonalSstLonRmse_def
    EnsoAlphaLhf_def EnsoAlphaLwr_def EnsoAlphaShf_def EnsoAlphaSwr_def EnsoAlphaThf_def
    EnsoMu_def EnsoAmpl_def EnsoSeasonality_def NinaSstLonRmse_def NinoSstLonRmse_def
    NinaSstTsRmse_def NinoSstTsRmse_def

lemmas metric_name_lists =
    rmse_metrics_def feedback_metrics_def derived_flux_metrics_def one_series_metrics_def
    lon_composite_metrics_def ts_composite_metrics_def

lemma rmse_family:
  "name \<in> set rmse_metrics \<Longrightarrow> family name (rmse_metric name v_model v_obs)"
  unfolding family_def by blast

lemma feedback_family:
  "name \<in> set feedback_metrics \<Longrightarrow> derived = (name \<in> set derived_flux_metrics) \<Longrightarrow>
   family name (feedback_metric name flux derived)"
  unfolding family_def by blast

lemma metric_functions_family: "\<forall>(name, f) \<in> set metric_functions. family name f"
  unfolding metric_functions_def metric_function_defs
  apply simp
  apply (intro conjI rmse_family feedback_family)
  apply (simp_all add: family_def metric_name_lists)
  done

section \<open>Facts about the length check\<close>

lemma min_time_steps_in_needed:
  "''min_time_steps'' \<in> set needed_kwarg_rmse" "''min_time_steps'' \<in> set needed_kwarg_one"
  "''min_time_steps'' \<in> set needed_kwarg_events"
  by (simp_all add: needed_kwarg_rmse_def needed_kwarg_one_def needed_kwarg_events_def)

lemma frequency_in_needed:
  "''frequency'' \<in> set needed_kwarg_rmse" "''frequency'' \<in> set needed_kwarg_one"
  "''frequency'' \<in> set needed_kwarg_events"
  by (simp_all add: needed_kwarg_rmse_def needed_kwarg_one_def needed_kwarg_events_def)

lemma filled_not_int:
  assumes "\<forall>mini. kw ''min_time_steps'' = Some mini \<longrightarrow> \<not> isinstance_int mini"
    and "''min_time_steps'' \<in> set needed"
  shows "\<exists>v. test_given_kwargs needed kw ''min_time_steps'' = Some v \<and> \<not> isinstance_int v"
proof (cases "kw ''min_time_steps''")
  case None
  then show ?thesis
    using test_given_kwargs_default[OF assms(2), of kw] by (simp add: DefaultArgValues_def)
next
  case (Some v)
  then show ?thesis using assms(1) test_given_kwargs_keeps[of kw _ v needed] by simp
qed

text \<open>The length check alone.\<close>

lemma check_time_period_model:
  "kw ''min_time_steps'' = Some mini \<Longrightarrow> isinstance_int mini \<Longrightarrow> int n1 < int_value mini \<Longrightarrow>
   check_time_period stk name kw n1 n2 = Inl (MyError (too_short_lines stk name ''modeled'' n1 mini))"
  by (simp add: check_time_period_def getitem_def)

lemma check_time_period_obs:
  "kw ''min_time_steps'' = Some mini \<Longrightarrow> isinstance_int mini \<Longrightarrow> \<not> int n1 < int_value mini \<Longrightarrow>
   int n2 < int_value mini \<Longrightarrow>
   check_time_period stk name kw n1 n2 = Inl (MyError (too_short_lines stk name ''observed'' n2 mini))"
  by (simp add: check_time_period_def getitem_def)

lemma check_time_period_skipped:
  "kw ''min_time_steps'' = Some mini \<Longrightarrow> \<not> isinstance_int mini \<Longrightarrow>
   check_time_period stk name kw n1 n2 = Inr ()"
  by (simp add: check_time_period_def getitem_def)

lemma CheckTime_skipped:
  "kw ''min_time_steps'' = Some mini \<Longrightarrow> \<not> isinstance_int mini \<Longrightarrow>
   CheckTime n1 n2 name kw stk = Inr ()"
  by (simp add: CheckTime_def)

lemma Regridding_not_too_short: "Regridding stk kw v bx = Inl e \<Longrightarrow> \<not> too_short e"
  by (auto simp: Regridding_def getitem_def Let_def split: option.splits pyval.splits if_splits)

lemma getitem_not_too_short: "getitem kw k = Inl e \<Longrightarrow> \<not> too_short e"
  by (auto simp: getitem_def split: option.splits)

text \<open>The too-short series, family by family.\<close>

lemma two_series_too_short:
  assumes "kwargs d ''min_time_steps'' = Some mini" and "isinstance_int mini"
    and "f = rmse_metric name v_model v_obs \<or> f = lon_composite_metric name
         \<or> f = ts_composite_metric name \<or> (name = ''EnsoPrJjaTel'' \<and> f = EnsoPrJjaTel)"
  shows "int (len_model d) < int_value mini \<Longrightarrow>
           f d = Inl (MyError (too_short_lines (stack d) name ''modeled'' (len_model d) mini))"
    and "\<not> int (len_model d) < int_value mini \<Longrightarrow> int (len_obs d) < int_value mini \<Longrightarrow>
           f d = Inl (MyError (too_short_lines (stack d) name ''observed'' (len_obs d) mini))"
proof -
  have k: "test_given_kwargs needed (kwargs d) ''min_time_steps'' = Some mini" for needed
    using assms(1) by (rule test_given_kwargs_keeps)
  show "int (len_model d) < int_value mini \<Longrightarrow>
           f d = Inl (MyError (too_short_lines (stack d) name ''modeled'' (len_model d) mini))"
    using assms(2,3) k
    by (auto simp: rmse_metric_def lon_composite_metric_def ts_composite_metric_def
        EnsoPrJjaTel_def Let_def check_time_period_def getitem_def)
  show "\<not> int (len_model d) < int_value mini \<Longrightarrow> int (len_obs d) < int_value mini \<Longrightarrow>
           f d = Inl (MyError (too_short_lines (stack d) name ''observed'' (len_obs d) mini))"
    using assms(2,3) k
    by (auto simp: rmse_metric_def lon_composite_metric_def ts_composite_metric_def
        EnsoPrJjaTel_def Let_def check_time_period_def getitem_def)
qed

lemma feedback_too_short:
  assumes "kwargs d ''min_time_steps'' = Some mini" and "isinstance_int mini"
    and "derived \<longrightarrow> kwargs d ''project_interpreter_var2'' \<noteq> None"
  shows "int (len_model d) < int_value mini \<Longrightarrow>
           feedback_metric name flux derived d = Inl (TooShortTimePeriod name (len_model d) mini (stack d))"
    and "\<not> int (len_model d) < int_value mini \<Longrightarrow> int (len_obs d) < int_value mini \<Longrightarrow>
           feedback_metric name flux derived d = Inl (TooShortTimePeriod name (len_obs d) mini (stack d))"
proof -
  let ?kw = "test_given_kwargs needed_kwarg_one (kwargs d)"
  have k: "?kw ''min_time_steps'' = Some mini"
    using assms(1) by (rule test_given_kwargs_keeps)
  have p: "derived \<Longrightarrow> \<exists>v. getitem ?kw ''project_interpreter_var2'' = Inr v"
    using assms(3) test_given_kwargs_keeps[of "kwargs d" "''project_interpreter_var2''" _ needed_kwarg_one]
    by (auto simp: getitem_def)
  show "int (len_model d) < int_value mini \<Longrightarrow>
           feedback_metric name flux derived d = Inl (TooShortTimePeriod name (len_model d) mini (stack d))"
    using k p assms(2) by (auto simp: feedback_metric_def Let_def CheckTime_def)
  show "\<not> int (len_model d) < int_value mini \<Longrightarrow> int (len_obs d) < int_value mini \<Longrightarrow>
           feedback_metric name flux derived d = Inl (TooShortTimePeriod name (len_obs d) mini (stack d))"
    using k p assms(2) by (auto simp: feedback_metric_def Let_def CheckTime_def)
qed

lemma std_too_short:
  assumes "kwargs d ''min_time_steps'' = Some mini" and "isinstance_int mini"
    and "int (len_model d) < int_value mini"
  shows "std_metric name d = Inl (TooShortTimePeriod name (len_model d) mini (stack d))"
proof -
  have k: "test_given_kwargs needed_kwarg_one (kwargs d) ''min_time_steps'' = Some mini"
    using assms(1) by (rule test_given_kwargs_keeps)
  show ?thesis using k assms(2,3) by (simp add: std_metric_def Let_def getitem_def)
qed

text \<open>No check without an integer minimum.\<close>

lemma signAgreement_not_too_short: "signAgreement lm lo = Inl e \<Longrightarrow> \<not> too_short e"
  by (auto simp: signAgreement_def split: if_splits)

lemma no_check_lengths_unused:
  assumes "\<forall>mini. kwargs d ''min_time_steps'' = Some mini \<longrightarrow> \<not> isinstance_int mini"
    and "family name f"
  shows "f (d\<lparr>len_model := n1, len_obs := n2\<rparr>) = f d"
proof -
  let ?d = "d\<lparr>len_model := n1, len_obs := n2\<rparr>"
  have k: "\<exists>v. test_given_kwargs needed (kwargs d) ''min_time_steps'' = Some v \<and> \<not> isinstance_int v"
    if "''min_time_steps'' \<in> set needed" for needed
    using filled_not_int[of "kwargs d" needed] assms(1) that by blast
  obtain a where a: "test_given_kwargs needed_kwarg_rmse (kwargs d) ''min_time_steps'' = Some a"
      "\<not> isinstance_int a" using k[OF min_time_steps_in_needed(1)] by blast
  obtain b where b: "test_given_kwargs needed_kwarg_one (kwargs d) ''min_time_steps'' = Some b"
      "\<not> isinstance_int b" using k[OF min_time_steps_in_needed(2)] by blast
  obtain c where c: "test_given_kwargs needed_kwarg_events (kwargs d) ''min_time_steps'' = Some c"
      "\<not> isinstance_int c" using k[OF min_time_steps_in_needed(3)] by blast
  have 1: "rmse_metric name v1 v2 ?d = rmse_metric name v1 v2 d" for v1 v2
    using a by (simp add: rmse_metric_def Let_def check_time_period_def getitem_def
        split: sum.splits option.splits)
  have 2: "feedback_metric name flux dv ?d = feedback_metric name flux dv d" for flux dv
    using b by (simp add: feedback_metric_def Let_def CheckTime_def getitem_def
        split: sum.splits option.splits)
  have 3: "std_metric name ?d = std_metric name d"
    using b by (simp add: std_metric_def Let_def getitem_def split: sum.splits option.splits)
  have 4: "EnsoPrJjaTel ?d = EnsoPrJjaTel d"
    using c by (simp add: EnsoPrJjaTel_def Let_def check_time_period_def getitem_def
        regions_def list_composite_model_def list_composite_obs_def
        split: sum.splits option.splits)
  have 5: "lon_composite_metric name ?d = lon_composite_metric name d"
    using c by (simp add: lon_composite_metric_def Let_def check_time_period_def getitem_def
        split: sum.splits option.splits)
  have 6: "ts_composite_metric name ?d = ts_composite_metric name d"
    using c by (simp add: ts_composite_metric_def Let_def check_time_period_def getitem_def
        split: sum.splits option.splits)
  from assms(2) show ?thesis
    unfolding family_def using 1 2 3 4 5 6 by blast
qed

lemma no_check_no_too_short:
  assumes "\<forall>mini. kwargs d ''min_time_steps'' = Some mini \<longrightarrow> \<not> isinstance_int mini"
    and "family name f" and "f d = Inl e"
  shows "\<not> too_short e"
proof -
  have k: "\<exists>v. test_given_kwargs needed (kwargs d) ''min_time_steps'' = Some v \<and> \<not> isinstance_int v"
    if "''min_time_steps'' \<in> set needed" for needed
    using filled_not_int[of "kwargs d" needed] assms(1) that by blast
  obtain a where a: "test_given_kwargs needed_kwarg_rmse (kwargs d) ''min_time_steps'' = Some a"
      "\<not> isinstance_int a" using k[OF min_time_steps_in_needed(1)] by blast
  obtain b where b: "test_given_kwargs needed_kwarg_one (kwargs d) ''min_time_steps'' = Some b"
      "\<not> isinstance_int b" using k[OF min_time_steps_in_needed(2)] by blast
  obtain c where c: "test_given_kwargs needed_kwarg_events (kwargs d) ''min_time_steps'' = Some c"
      "\<not> isinstance_int c" using k[OF min_time_steps_in_needed(3)] by blast
  have 1: "rmse_metric name v1 v2 d = Inl e \<Longrightarrow> \<not> too_short e" for v1 v2
    using a by (auto simp: rmse_metric_def Let_def check_time_period_def getitem_def
        dest: Regridding_not_too_short split: sum.splits option.splits)
  have 2: "feedback_metric name flux dv d = Inl e \<Longrightarrow> \<not> too_short e" for flux dv
    using b by (auto simp: feedback_metric_def Let_def CheckTime_def getitem_def
        split: sum.splits option.splits if_splits)
  have 3: "std_metric name d = Inl e \<Longrightarrow> \<not> too_short e"
    using b by (auto simp: std_metric_def Let_def getitem_def split: option.splits)
  have 4: "EnsoPrJjaTel d = Inl e \<Longrightarrow> \<not> too_short e"
    using c by (auto simp: EnsoPrJjaTel_def Let_def check_time_period_def getitem_def
        dest: signAgreement_not_too_short split: sum.splits option.splits)
  have 5: "lon_composite_metric name d = Inl e \<Longrightarrow> \<not> too_short e"
    using c by (auto simp: lon_composite_metric_def Let_def check_time_period_def getitem_def
        dest: Regridding_not_too_short split: sum.splits option.splits)
  have 6: "ts_composite_metric name d = Inl e \<Longrightarrow> \<not> too_short e"
    using c by (auto simp: ts_composite_metric_def Let_def check_time_period_def getitem_def
        split: sum.splits option.splits)
  from assms(2,3) show ?thesis
    unfolding family_def using 1 2 3 4 5 6 by blast
qed

lemma str_nat_100: "str_nat 100 = ''100''" "str_nat 204 = ''204''"
  by code_simp+

lemma ljust_5: "replicate 5 CHR '' '' = ''     ''"
  by code_simp

section \<open>The minimum length criterion in every metric function\<close>

text \<open>
  Claim C1. In every metric function, when the caller gives an integer
  \<^verbatim>\<open>min_time_steps\<close> and the series the check looks at has fewer time steps, the call
  fails with a too-short time period error that carries the metric name, the actual
  length and the required minimum: the first series is looked at first, the second (in
  the functions that read two) next. When \<^verbatim>\<open>min_time_steps\<close> is absent, \<^verbatim>\<open>None\<close> or any
  other non-integer, no length is looked at: the outcome is the same for all lengths and
  is never a too-short error. The three feedback metrics that derive their flux need
  the key \<^verbatim>\<open>project_interpreter_var2\<close> to get as far as the check.
\<close>

theorem min_time_steps_criterion:
  assumes "(name, f) \<in> set metric_functions"
    and "name \<in> set derived_flux_metrics \<longrightarrow> kwargs d ''project_interpreter_var2'' \<noteq> None"
  shows "(\<forall>mini. kwargs d ''min_time_steps'' = Some mini \<and> isinstance_int mini \<longrightarrow>
            (int (len_model d) < int_value mini \<longrightarrow>
               f d = Inl (MyError (too_short_lines (stack d) name ''modeled'' (len_model d) mini))
             \<or> f d = Inl (TooShortTimePeriod name (len_model d) mini (stack d)))
          \<and> (\<not> int (len_model d) < int_value mini \<and> int (len_obs d) < int_value mini
               \<and> name \<notin> set one_series_metrics \<longrightarrow>
               f d = Inl (MyError (too_short_lines (stack d) name ''observed'' (len_obs d) mini))
             \<or> f d = Inl (TooShortTimePeriod name (len_obs d) mini (stack d))))
       \<and> ((\<forall>mini. kwargs d ''min_time_steps'' = Some mini \<longrightarrow> \<not> isinstance_int mini) \<longrightarrow>
            (\<forall>n1 n2. f (d\<lparr>len_model := n1, len_obs := n2\<rparr>) = f d)
          \<and> (\<forall>e. f d = Inl e \<longrightarrow> \<not> too_short e))"
proof -
  from assms(1) have fam: "family name f" using metric_functions_family by blast
  have short: "(int (len_model d) < int_value mini \<longrightarrow>
               f d = Inl (MyError (too_short_lines (stack d) name ''modeled'' (len_model d) mini))
             \<or> f d = Inl (TooShortTimePeriod name (len_model d) mini (stack d)))
          \<and> (\<not> int (len_model d) < int_value mini \<and> int (len_obs d) < int_value mini
               \<and> name \<notin> set one_series_metrics \<longrightarrow>
               f d = Inl (MyError (too_short_lines (stack d) name ''observed'' (len_obs d) mini))
             \<or> f d = Inl (TooShortTimePeriod name (len_obs d) mini (stack d)))"
    if m: "kwargs d ''min_time_steps'' = Some mini" "isinstance_int mini" for mini
  proof -
    from fam consider
        (two) v_model v_obs where "f = rmse_metric name v_model v_obs \<or> f = lon_composite_metric name
           \<or> f = ts_composite_metric name \<or> (name = ''EnsoPrJjaTel'' \<and> f = EnsoPrJjaTel)"
      | (feedback) flux where "f = feedback_metric name flux (name \<in> set derived_flux_metrics)"
      | (std) "f = std_metric name" "name \<in> set one_series_metrics"
      unfolding family_def by blast
    then show ?thesis
    proof cases
      case two
      from two_series_too_short[OF m two] show ?thesis by blast
    next
      case feedback
      have "(name \<in> set derived_flux_metrics) \<longrightarrow> kwargs d ''project_interpreter_var2'' \<noteq> None"
        using assms(2) .
      from feedback_too_short[OF m this, of name flux] feedback show ?thesis by blast
    next
      case std
      from std_too_short[OF m, of name] std show ?thesis by blast
    qed
  qed
  have skip: "(\<forall>n1 n2. f (d\<lparr>len_model := n1, len_obs := n2\<rparr>) = f d)
          \<and> (\<forall>e. f d = Inl e \<longrightarrow> \<not> too_short e)"
    if "\<forall>mini. kwargs d ''min_time_steps'' = Some mini \<longrightarrow> \<not> isinstance_int mini"
    using no_check_lengths_unused[OF that fam] no_check_no_too_short[OF that fam] by blast
  from short skip show ?thesis by blast
qed

theorem min_time_steps_criterion_witness:
  "(BiasSstRmse (tel_example\<lparr>len_model := 100\<rparr>) =
      Inl (MyError [''ERROR driver: too short time-period'',
        ''     BiasSstRmse: the modeled time-period is too short: 100 (minimum time-period: 204)''])
    \<or> BiasSstRmse (tel_example\<lparr>len_model := 100\<rparr>) =
      Inl (TooShortTimePeriod ''BiasSstRmse'' 100 (PyInt 204) ''driver''))
   \<and> EnsoAmpl (tel_example\<lparr>kwargs := Map.empty, len_model := 0, len_obs := 0\<rparr>)
       = EnsoAmpl (tel_example\<lparr>kwargs := Map.empty\<rparr>)"
proof -
  let ?d = "tel_example\<lparr>len_model := 100\<rparr>"
  let ?e = "tel_example\<lparr>kwargs := Map.empty\<rparr>"
  have h1: "(''BiasSstRmse'', BiasSstRmse) \<in> set metric_functions"
    by (simp add: metric_functions_def)
  have h2: "''BiasSstRmse'' \<in> set derived_flux_metrics \<longrightarrow> kwargs ?d ''project_interpreter_var2'' \<noteq> None"
    by (simp add: derived_flux_metrics_def)
  have m: "kwargs ?d ''min_time_steps'' = Some (PyInt 204) \<and> isinstance_int (PyInt 204)"
    by (simp add: tel_example_def)
  have l: "int (len_model ?d) < int_value (PyInt 204)" by simp
  have v: "len_model ?d = 100" "stack ?d = ''driver''" by (simp_all add: tel_example_def)
  from min_time_steps_criterion [OF h1 h2] m l
  have "BiasSstRmse ?d = Inl (MyError (too_short_lines (stack ?d) ''BiasSstRmse'' ''modeled'' (len_model ?d) (PyInt 204)))
      \<or> BiasSstRmse ?d = Inl (TooShortTimePeriod ''BiasSstRmse'' (len_model ?d) (PyInt 204) (stack ?d))"
    by blast
  then have first: "BiasSstRmse ?d =
      Inl (MyError [''ERROR driver: too short time-period'',
        ''     BiasSstRmse: the modeled time-period is too short: 100 (minimum time-period: 204)''])
    \<or> BiasSstRmse ?d = Inl (TooShortTimePeriod ''BiasSstRmse'' 100 (PyInt 204) ''driver'')"
    unfolding v by (simp add: too_short_lines_def str_nat_100 ljust_5)
  have g1: "(''EnsoAmpl'', EnsoAmpl) \<in> set metric_functions"
    by (simp add: metric_functions_def)
  have g2: "''EnsoAmpl'' \<in> set derived_flux_metrics \<longrightarrow> kwargs ?e ''project_interpreter_var2'' \<noteq> None"
    by (simp add: derived_flux_metrics_def)
  have n: "\<forall>mini. kwargs ?e ''min_time_steps'' = Some mini \<longrightarrow> \<not> isinstance_int mini"
    by simp
  from min_time_steps_criterion [OF g1 g2] n
  have "EnsoAmpl (?e\<lparr>len_model := 0, len_obs := 0\<rparr>) = EnsoAmpl ?e" by blast
  then have second: "EnsoAmpl (tel_example\<lparr>kwargs := Map.empty, len_model := 0, len_obs := 0\<rparr>)
       = EnsoAmpl (tel_example\<lparr>kwargs := Map.empty\<rparr>)" by simp
  from first second show ?thesis by blast
qed

section \<open>The keys of the regridding dictionary\<close>

lemma check_time_period_passes:
  assumes "long_enough d" and "''min_time_steps'' \<in> set needed"
  shows "check_time_period stk name (test_given_kwargs needed (kwargs d)) (len_model d) (len_obs d) = Inr ()"
proof (cases "kwargs d ''min_time_steps''")
  case None
  then show ?thesis
    using test_given_kwargs_default[OF assms(2), of "kwargs d"]
    by (simp add: check_time_period_def getitem_def DefaultArgValues_def)
next
  case (Some v)
  then have "test_given_kwargs needed (kwargs d) ''min_time_steps'' = Some v"
    by (rule test_given_kwargs_keeps)
  then show ?thesis using assms(1) Some
    by (auto simp: check_time_period_def getitem_def long_enough_def)
qed

lemma filled_frequency:
  "''frequency'' \<in> set needed \<Longrightarrow> \<exists>v. getitem (test_given_kwargs needed kw) ''frequency'' = Inr v"
  using test_given_kwargs_present[of "''frequency''" needed kw] by (auto simp: getitem_def)

lemma regridding_family:
  assumes "family name f" and "name \<in> set regridding_metrics"
  shows "(\<exists>v_model v_obs. f = rmse_metric name v_model v_obs) \<or> f = lon_composite_metric name"
  using assms unfolding family_def regridding_metrics_def
  by (auto simp: metric_name_lists)

text \<open>The regridding step on a dictionary.\<close>

lemma Regridding_dict:
  assumes "kw ''regridding'' = Some (PyDict items)"
  shows "Regridding stk kw v bx =
     (if filter (\<lambda>k. k \<notin> set known_args) (map fst items) \<noteq> []
      then Inl (UnknownKeyArg (filter (\<lambda>k. k \<notin> set known_args) (map fst items)) stk)
      else Inr [Call ''TwoVarRegrid'' v bx (map_of items)])"
  using assms by (simp add: Regridding_def getitem_def Let_def)

lemma returned_simps [simp]:
  "returned (Inl e) = Inl e" "returned (Inr out) = Inr (result out)"
  by (simp_all add: returned_def)

lemmas returned_case =
  sum.case_distrib[of returned] option.case_distrib[of returned] if_distrib[of returned]

lemma test_given_kwargs_agree:
  assumes "\<forall>k. k \<noteq> a \<longrightarrow> m1 k = m2 k" and "k \<noteq> a"
  shows "test_given_kwargs needed m1 k = test_given_kwargs needed m2 k"
  using assms unfolding test_given_kwargs_def
proof (induction needed arbitrary: m1 m2)
  case Nil
  then show ?case by simp
next
  case (Cons arg needed)
  let ?s = "\<lambda>m. case m arg of None \<Rightarrow> m(arg \<mapsto> DefaultArgValues arg) | Some _ \<Rightarrow> m"
  have "\<forall>k. k \<noteq> a \<longrightarrow> ?s m1 k = ?s m2 k"
    using Cons.prems(1) by (cases "arg = a") (auto split: option.splits)
  from Cons.IH[OF this Cons.prems(2)] show ?case by simp
qed

lemma test_given_kwargs_without:
  "k \<noteq> a \<Longrightarrow> test_given_kwargs needed (kw(a := x)) k = test_given_kwargs needed kw k"
  by (rule test_given_kwargs_agree[of a]) auto

lemma regridding_unread:
  assumes "family name f" and "name \<notin> set regridding_metrics"
  shows "returned (f (d\<lparr>kwargs := (kwargs d)(''regridding'' := x)\<rparr>)) = returned (f d)"
proof -
  let ?d = "d\<lparr>kwargs := (kwargs d)(''regridding'' := x)\<rparr>"
  let ?kw = "(kwargs d)(''regridding'' := x)"
  have m: "test_given_kwargs needed ?kw ''min_time_steps'' = test_given_kwargs needed (kwargs d) ''min_time_steps''"
      "test_given_kwargs needed ?kw ''frequency'' = test_given_kwargs needed (kwargs d) ''frequency''"
      "test_given_kwargs needed ?kw ''smoothing'' = test_given_kwargs needed (kwargs d) ''smoothing''"
      "test_given_kwargs needed ?kw ''project_interpreter_var2'' = test_given_kwargs needed (kwargs d) ''project_interpreter_var2''"
    for needed
    by (simp_all add: test_given_kwargs_without)
  have 2: "returned (feedback_metric name flux dv ?d) = returned (feedback_metric name flux dv d)" for flux dv
    by (simp add: feedback_metric_def Let_def CheckTime_def getitem_def m returned_case
        cong: sum.case_cong option.case_cong if_cong)
  have 3: "returned (std_metric name ?d) = returned (std_metric name d)"
    by (simp add: std_metric_def Let_def getitem_def m returned_case
        cong: sum.case_cong option.case_cong if_cong)
  obtain s where s: "test_given_kwargs needed_kwarg_events (kwargs d) ''smoothing'' = Some s"
    using smoothing_present by blast
  have 4: "returned (EnsoPrJjaTel ?d) = returned (EnsoPrJjaTel d)"
    using s by (simp add: EnsoPrJjaTel_def Let_def check_time_period_def getitem_def m returned_case
        regions_def list_composite_model_def list_composite_obs_def
        cong: sum.case_cong option.case_cong if_cong)
  have 6: "returned (ts_composite_metric name ?d) = returned (ts_composite_metric name d)"
    by (simp add: ts_composite_metric_def Let_def check_time_period_def getitem_def m returned_case
        cong: sum.case_cong option.case_cong if_cong)
  from assms show ?thesis
    unfolding family_def regridding_metrics_def using 2 3 4 6 by auto
qed

lemma regridding_metric_dict:
  assumes "long_enough d" and "kwargs d ''regridding'' = Some (PyDict items)"
    and "f = rmse_metric name v_model v_obs \<or> f = lon_composite_metric name"
  shows "filter (\<lambda>k. k \<notin> set known_args) (map fst items) \<noteq> [] \<Longrightarrow>
           f d = Inl (UnknownKeyArg (filter (\<lambda>k. k \<notin> set known_args) (map fst items)) (stack d))"
    and "filter (\<lambda>k. k \<notin> set known_args) (map fst items) = [] \<Longrightarrow>
           \<exists>out v. f d = Inr out \<and> last (calls out) = Call ''TwoVarRegrid'' v (box d) (map_of items)"
proof -
  have r: "test_given_kwargs needed (kwargs d) ''regridding'' = Some (PyDict items)" for needed
    using assms(2) by (rule test_given_kwargs_keeps)
  have c: "check_time_period (stack d) name (test_given_kwargs needed_kwarg_rmse (kwargs d))
             (len_model d) (len_obs d) = Inr ()"
      "check_time_period (stack d) name (test_given_kwargs needed_kwarg_events (kwargs d))
             (len_model d) (len_obs d) = Inr ()"
    using check_time_period_passes[OF assms(1)] min_time_steps_in_needed by blast+
  obtain f1 where f1: "getitem (test_given_kwargs needed_kwarg_rmse (kwargs d)) ''frequency'' = Inr f1"
    using filled_frequency[OF frequency_in_needed(1)] by blast
  obtain f3 where f3: "getitem (test_given_kwargs needed_kwarg_events (kwargs d)) ''frequency'' = Inr f3"
    using filled_frequency[OF frequency_in_needed(3)] by blast
  show "filter (\<lambda>k. k \<notin> set known_args) (map fst items) \<noteq> [] \<Longrightarrow>
           f d = Inl (UnknownKeyArg (filter (\<lambda>k. k \<notin> set known_args) (map fst items)) (stack d))"
    using assms(3) c r
    by (auto simp: rmse_metric_def lon_composite_metric_def Let_def Regridding_def getitem_def)
  show "filter (\<lambda>k. k \<notin> set known_args) (map fst items) = [] \<Longrightarrow>
           \<exists>out v. f d = Inr out \<and> last (calls out) = Call ''TwoVarRegrid'' v (box d) (map_of items)"
    using assms(3) c f1 f3 r
    by (auto simp: rmse_metric_def lon_composite_metric_def Let_def Regridding_def
        getitem_def split: option.splits)
qed

text \<open>
  Claim C2, as amended. In the fifteen metric functions that have a regridding step (the
  nine \<^verbatim>\<open>Bias...Rmse\<close>, the four \<^verbatim>\<open>Seasonal...Rmse\<close>, \<^verbatim>\<open>NinaSstLonRmse\<close> and
  \<^verbatim>\<open>NinoSstLonRmse\<close>), a call that is long enough and whose \<^verbatim>\<open>regridding\<close> value is a
  dictionary fails with \<^verbatim>\<open>UnknownKeyArg\<close> on the keys outside the known set when there is
  one, and otherwise calls \<^verbatim>\<open>TwoVarRegrid\<close> with the entries of the dictionary and
  returns its record. The other eleven metric functions never read the option: what
  they return or raise is the same without it.
\<close>

theorem regridding_keys_checked:
  assumes "(name, f) \<in> set metric_functions" and "long_enough d"
    and "kwargs d ''regridding'' = Some (PyDict items)"
  shows "(name \<in> set regridding_metrics \<longrightarrow>
            (\<not> set (map fst items) \<subseteq> set known_args \<longrightarrow>
               (\<exists>extra. set extra = set (map fst items) - set known_args
                  \<and> f d = Inl (UnknownKeyArg extra (stack d))))
          \<and> (set (map fst items) \<subseteq> set known_args \<longrightarrow>
               (\<exists>out v. f d = Inr out
                  \<and> last (calls out) = Call ''TwoVarRegrid'' v (box d) (map_of items))))
       \<and> (name \<notin> set regridding_metrics \<longrightarrow>
            returned (f d) = returned (f (d\<lparr>kwargs := (kwargs d)(''regridding'' := None)\<rparr>)))"
proof -
  from assms(1) have fam: "family name f" using metric_functions_family by blast
  let ?extra = "filter (\<lambda>k. k \<notin> set known_args) (map fst items)"
  have e: "set ?extra = set (map fst items) - set known_args" by auto
  have ne: "?extra \<noteq> [] \<longleftrightarrow> \<not> set (map fst items) \<subseteq> set known_args"
    by (auto simp: filter_empty_conv)
  have A: "\<not> set (map fst items) \<subseteq> set known_args \<longrightarrow>
               (\<exists>extra. set extra = set (map fst items) - set known_args
                  \<and> f d = Inl (UnknownKeyArg extra (stack d)))"
      and B: "set (map fst items) \<subseteq> set known_args \<longrightarrow>
               (\<exists>out v. f d = Inr out
                  \<and> last (calls out) = Call ''TwoVarRegrid'' v (box d) (map_of items))"
    if "name \<in> set regridding_metrics"
  proof -
    from regridding_family[OF fam that] obtain v_model v_obs
      where f: "f = rmse_metric name v_model v_obs \<or> f = lon_composite_metric name" by blast
    show "\<not> set (map fst items) \<subseteq> set known_args \<longrightarrow>
               (\<exists>extra. set extra = set (map fst items) - set known_args
                  \<and> f d = Inl (UnknownKeyArg extra (stack d)))"
      using regridding_metric_dict(1)[OF assms(2,3) f] e ne by blast
    show "set (map fst items) \<subseteq> set known_args \<longrightarrow>
               (\<exists>out v. f d = Inr out
                  \<and> last (calls out) = Call ''TwoVarRegrid'' v (box d) (map_of items))"
      using regridding_metric_dict(2)[OF assms(2,3) f] ne by blast
  qed
  have C: "returned (f d) = returned (f (d\<lparr>kwargs := (kwargs d)(''regridding'' := None)\<rparr>))"
    if "name \<notin> set regridding_metrics"
    using regridding_unread[OF fam that, of d None] by simp
  from A B C show ?thesis by blast
qed

theorem regridding_keys_checked_witness:
  "(\<exists>extra. set extra = {''newgrd''}
      \<and> BiasPrLonRmse regrid_example = Inl (UnknownKeyArg extra ''driver''))
   \<and> returned (EnsoMu regrid_example)
       = returned (EnsoMu (regrid_example\<lparr>kwargs := Map.empty\<rparr>))"
proof -
  have h1: "(''BiasPrLonRmse'', BiasPrLonRmse) \<in> set metric_functions"
    and h2: "(''EnsoMu'', EnsoMu) \<in> set metric_functions"
    by (simp_all add: metric_functions_def)
  have k: "kwargs regrid_example ''regridding''
      = Some (PyDict [(''regridTool'', PyStr ''esmf''), (''newgrd'', PyStr ''generic_1x1deg'')])"
    by (simp add: regrid_example_def)
  have n1: "''BiasPrLonRmse'' \<in> set regridding_metrics"
    and n2: "''EnsoMu'' \<notin> set regridding_metrics"
    by (simp_all add: regridding_metrics_def metric_name_lists)
  have s: "set (map fst [(''regridTool'', PyStr ''esmf''), (''newgrd'', PyStr ''generic_1x1deg'')])
             - set known_args = {''newgrd''}"
    by (auto simp: known_args_def)
  have u: "(kwargs regrid_example)(''regridding'' := None) = Map.empty"
    by (simp add: regrid_example_def)
  from regridding_keys_checked [OF h1 long_enough_regrid_example k] n1 s
  have a: "\<exists>extra. set extra = {''newgrd''}
      \<and> BiasPrLonRmse regrid_example = Inl (UnknownKeyArg extra (stack regrid_example))"
    by auto
  from regridding_keys_checked [OF h2 long_enough_regrid_example k] n2 u
  have b: "returned (EnsoMu regrid_example)
       = returned (EnsoMu (regrid_example\<lparr>kwargs := Map.empty\<rparr>))"
    by simp
  from a b show ?thesis by (simp add: regrid_example_def tel_example_def)
qed

text \<open>
  The claim as stated, for every metric call, fails on \<^verbatim>\<open>EnsoAmpl\<close>: with the misspelt
  key in the regridding dictionary it returns its record.
\<close>

theorem regridding_unknown_key_counterexample:
  "returned (EnsoAmpl regrid_example) = Inr (std_record PyNone)"
  by (simp add: EnsoAmpl_def std_metric_def Let_def test_given_kwargs_def needed_kwarg_one_def
      getitem_def DefaultArgValues_def regrid_example_def tel_example_def)

section \<open>A call without the regridding option\<close>

lemma regridding_not_filled:
  "kw ''regridding'' = None \<Longrightarrow> test_given_kwargs needed_kwarg_events kw ''regridding'' = None"
  using test_given_kwargs_other[of "''regridding''" needed_kwarg_events kw]
  by (simp add: needed_kwarg_events_def)

lemma regridding_filled:
  "kw ''regridding'' = None \<Longrightarrow>
   test_given_kwargs needed_kwarg_rmse kw ''regridding'' = Some (PyBool False)"
  using test_given_kwargs_default[of "''regridding''" needed_kwarg_rmse kw]
  by (simp add: needed_kwarg_rmse_def DefaultArgValues_def)

lemma lon_composite_metric_KeyError:
  assumes "long_enough d" and "kwargs d ''regridding'' = None"
  shows "lon_composite_metric name d = Inl (KeyError ''regridding'')"
  using check_time_period_passes[OF assms(1) min_time_steps_in_needed(3)]
    regridding_not_filled[of "kwargs d"] assms(2)
  by (simp add: lon_composite_metric_def Let_def Regridding_def getitem_def)

lemma rmse_metric_without_regridding:
  assumes "long_enough d" and "kwargs d ''regridding'' = None"
  shows "\<exists>out. rmse_metric name v_model v_obs d = Inr out
           \<and> (\<forall>c \<in> set (calls out). tool c \<noteq> ''TwoVarRegrid'')"
proof -
  obtain fr where fr: "getitem (test_given_kwargs needed_kwarg_rmse (kwargs d)) ''frequency'' = Inr fr"
    using filled_frequency[OF frequency_in_needed(1)] by blast
  show ?thesis
    using check_time_period_passes[OF assms(1) min_time_steps_in_needed(1)]
      regridding_filled[of "kwargs d"] assms(2) fr
    by (auto simp: rmse_metric_def Let_def Regridding_def getitem_def read_calls_def
        preprocess_calls_def)
qed

text \<open>
  Claim C9. \<^verbatim>\<open>NinaSstLonRmse\<close> and \<^verbatim>\<open>NinoSstLonRmse\<close> leave \<^verbatim>\<open>regridding\<close> out of their
  \<^verbatim>\<open>needed_kwarg\<close> list and read \<^verbatim>\<open>kwargs['regridding']\<close> all the same: a call without
  the option that gets as far as the regridding step raises \<^verbatim>\<open>KeyError\<close>. The
  \<^verbatim>\<open>Bias...Rmse\<close> and \<^verbatim>\<open>Seasonal...Rmse\<close> functions have \<^verbatim>\<open>regridding\<close> in the list; without
  the option they return their record and do not regrid.
\<close>

theorem regridding_absent_KeyError:
  assumes "long_enough d" and "kwargs d ''regridding'' = None"
  shows "NinaSstLonRmse d = Inl (KeyError ''regridding'')
       \<and> NinoSstLonRmse d = Inl (KeyError ''regridding'')
       \<and> ''regridding'' \<notin> set needed_kwarg_events
       \<and> ''regridding'' \<in> set needed_kwarg_rmse
       \<and> (\<forall>(name, f) \<in> set metric_functions. name \<in> set rmse_metrics \<longrightarrow>
             (\<exists>out. f d = Inr out \<and> (\<forall>c \<in> set (calls out). tool c \<noteq> ''TwoVarRegrid'')))"
proof -
  have a: "NinaSstLonRmse d = Inl (KeyError ''regridding'')"
    and b: "NinoSstLonRmse d = Inl (KeyError ''regridding'')"
    using lon_composite_metric_KeyError[OF assms]
    by (simp_all add: NinaSstLonRmse_def NinoSstLonRmse_def)
  have n: "''regridding'' \<notin> set needed_kwarg_events" "''regridding'' \<in> set needed_kwarg_rmse"
    by (simp_all add: needed_kwarg_events_def needed_kwarg_rmse_def)
  have c: "\<exists>out. f d = Inr out \<and> (\<forall>c \<in> set (calls out). tool c \<noteq> ''TwoVarRegrid'')"
    if "(name, f) \<in> set metric_functions" "name \<in> set rmse_metrics" for name f
  proof -
    from that(1) have "family name f" using metric_functions_family by blast
    with that(2) obtain v_model v_obs where "f = rmse_metric name v_model v_obs"
      unfolding family_def by (auto simp: metric_name_lists)
    then show ?thesis using rmse_metric_without_regridding[OF assms] by blast
  qed
  from a b n c show ?thesis by blast
qed

theorem regridding_absent_KeyError_witness:
  "NinaSstLonRmse tel_example = Inl (KeyError ''regridding'')
   \<and> NinoSstLonRmse tel_example = Inl (KeyError ''regridding'')
   \<and> (\<exists>out. SeasonalSstLonRmse tel_example = Inr out)"
proof -
  have h1: "long_enough tel_example" by (simp add: long_enough_def tel_example_def)
  have h2: "kwargs tel_example ''regridding'' = None" by (simp add: tel_example_def)
  have m: "(''SeasonalSstLonRmse'', SeasonalSstLonRmse) \<in> set metric_functions"
    by (simp add: metric_functions_def)
  have r: "''SeasonalSstLonRmse'' \<in> set rmse_metrics" by (simp add: rmse_metrics_def)
  from regridding_absent_KeyError [OF h1 h2] m r show ?thesis by blast
qed

section \<open>The keys of the returned record\<close>

lemma rmse_metric_keys:
  "rmse_metric name v_model v_obs d = Inr out \<Longrightarrow>
   result_keys out = [''name'', ''value'', ''value_error'', ''units'', ''method'', ''nyears_model'',
     ''nyears_observations'', ''time_frequency'', ''time_period_model'', ''time_period_observations'',
     ''ref'', ''dive_down_diag'']"
  by (auto simp: rmse_metric_def Let_def result_keys_def rmse_record_def
      split: sum.splits)

lemma feedback_metric_keys:
  "feedback_metric name flux dv d = Inr out \<Longrightarrow>
   result_keys out = [''name'', ''value'', ''value_error'', ''units'', ''method'',
     ''method_nonlinearity'', ''nyears'', ''time_frequency'', ''time_period'', ''ref'',
     ''nonlinearity'', ''nonlinearity_error'']"
  by (auto simp: feedback_metric_def Let_def result_keys_def feedback_record_def
      split: sum.splits)

lemma std_metric_keys:
  "std_metric name d = Inr out \<Longrightarrow>
   result_keys out = [''name'', ''value'', ''value_error'', ''units'', ''method'', ''nyears'',
     ''time_frequency'', ''time_period'', ''ref'']"
  by (auto simp: std_metric_def Let_def result_keys_def std_record_def
      split: sum.splits if_splits)

lemma EnsoPrJjaTel_keys:
  "EnsoPrJjaTel d = Inr out \<Longrightarrow>
   result_keys out = [''name'', ''value'', ''value_error'', ''units'', ''method'', ''value2'',
     ''value_error2'', ''units2'', ''nyears_model'', ''nyears_observations'', ''nina_model'',
     ''nino_model'', ''nina_observations'', ''nino_observations'', ''time_frequency'',
     ''time_period_model'', ''time_period_observations'', ''ref'', ''dive_down_diag'']"
  by (auto simp: EnsoPrJjaTel_def Let_def result_keys_def split: sum.splits)

lemma event_metric_keys:
  "lon_composite_metric name d = Inr out \<or> ts_composite_metric name d = Inr out \<Longrightarrow>
   result_keys out = [''name'', ''value'', ''value_error'', ''units'', ''method'', ''nyears_model'',
     ''nyears_observations'', ''events_model'', ''events_observations'', ''time_frequency'',
     ''time_period_model'', ''time_period_observations'', ''ref'', ''dive_down_diag'']"
  by (auto simp: lon_composite_metric_def ts_composite_metric_def Let_def result_keys_def
      event_record_def split: sum.splits)

lemmas key_lists = common_keys_def one_dataset_keys_def two_dataset_keys_def optional_keys_def

text \<open>
  Claim C6, as amended. Every metric function returns a record with the seven keys
  \<^verbatim>\<open>name\<close>, \<^verbatim>\<open>value\<close>, \<^verbatim>\<open>value_error\<close>, \<^verbatim>\<open>units\<close>, \<^verbatim>\<open>method\<close>, \<^verbatim>\<open>time_frequency\<close> and
  \<^verbatim>\<open>ref\<close>. The number of years and the time period are under \<^verbatim>\<open>nyears\<close> and
  \<^verbatim>\<open>time_period\<close> in the eight metrics computed on one dataset (the feedback metrics,
  \<^verbatim>\<open>EnsoAmpl\<close>, \<^verbatim>\<open>EnsoSeasonality\<close>) and under \<^verbatim>\<open>nyears_model\<close>,
  \<^verbatim>\<open>nyears_observations\<close>, \<^verbatim>\<open>time_period_model\<close>, \<^verbatim>\<open>time_period_observations\<close> in the
  eighteen that compare a model with observations, never under both. Every other key is
  one of \<open>optional_keys\<close>, and no key occurs twice.
\<close>

theorem result_record_keys:
  assumes "(name, f) \<in> set metric_functions" and "f d = Inr out"
  shows "set common_keys \<subseteq> set (result_keys out)
       \<and> (name \<in> set (feedback_metrics @ one_series_metrics) \<longrightarrow>
            set one_dataset_keys \<subseteq> set (result_keys out)
          \<and> set two_dataset_keys \<inter> set (result_keys out) = {})
       \<and> (name \<notin> set (feedback_metrics @ one_series_metrics) \<longrightarrow>
            set two_dataset_keys \<subseteq> set (result_keys out)
          \<and> set one_dataset_keys \<inter> set (result_keys out) = {})
       \<and> set (result_keys out)
            \<subseteq> set (common_keys @ one_dataset_keys @ two_dataset_keys @ optional_keys)
       \<and> distinct (result_keys out)"
proof -
  from assms(1) have "family name f" using metric_functions_family by blast
  then consider
      (rmse) v_model v_obs where "name \<in> set rmse_metrics" "f = rmse_metric name v_model v_obs"
    | (feedback) flux dv where "name \<in> set feedback_metrics" "f = feedback_metric name flux dv"
    | (std) "name \<in> set one_series_metrics" "f = std_metric name"
    | (tel) "name = ''EnsoPrJjaTel''" "f = EnsoPrJjaTel"
    | (event) "name \<in> set lon_composite_metrics \<or> name \<in> set ts_composite_metrics"
        "f = lon_composite_metric name \<or> f = ts_composite_metric name"
    unfolding family_def by blast
  then show ?thesis
  proof cases
    case rmse
    have n: "name \<notin> set (feedback_metrics @ one_series_metrics)"
      using rmse(1) by (auto simp: metric_name_lists)
    from rmse(2) assms(2) have "result_keys out = [''name'', ''value'', ''value_error'', ''units'',
       ''method'', ''nyears_model'', ''nyears_observations'', ''time_frequency'',
       ''time_period_model'', ''time_period_observations'', ''ref'', ''dive_down_diag'']"
      using rmse_metric_keys by blast
    with n show ?thesis by (simp add: key_lists)
  next
    case feedback
    have n: "name \<in> set (feedback_metrics @ one_series_metrics)" using feedback(1) by simp
    from feedback(2) assms(2) have "result_keys out = [''name'', ''value'', ''value_error'',
       ''units'', ''method'', ''method_nonlinearity'', ''nyears'', ''time_frequency'',
       ''time_period'', ''ref'', ''nonlinearity'', ''nonlinearity_error'']"
      using feedback_metric_keys by blast
    with n show ?thesis by (simp add: key_lists)
  next
    case std
    have n: "name \<in> set (feedback_metrics @ one_series_metrics)" using std(1) by simp
    from std(2) assms(2) have "result_keys out = [''name'', ''value'', ''value_error'', ''units'',
       ''method'', ''nyears'', ''time_frequency'', ''time_period'', ''ref'']"
      using std_metric_keys by blast
    with n show ?thesis by (simp add: key_lists)
  next
    case tel
    have n: "name \<notin> set (feedback_metrics @ one_series_metrics)"
      using tel(1) by (simp add: metric_name_lists)
    from tel(2) assms(2) have "result_keys out = [''name'', ''value'', ''value_error'', ''units'',
       ''method'', ''value2'', ''value_error2'', ''units2'', ''nyears_model'',
       ''nyears_observations'', ''nina_model'', ''nino_model'', ''nina_observations'',
       ''nino_observations'', ''time_frequency'', ''time_period_model'',
       ''time_period_observations'', ''ref'', ''dive_down_diag'']"
      using EnsoPrJjaTel_keys by blast
    with n show ?thesis by (simp add: key_lists)
  next
    case event
    have n: "name \<notin> set (feedback_metrics @ one_series_metrics)"
      using event(1) by (auto simp: metric_name_lists)
    from event(2) assms(2) have "result_keys out = [''name'', ''value'', ''value_error'', ''units'',
       ''method'', ''nyears_model'', ''nyears_observations'', ''events_model'',
       ''events_observations'', ''time_frequency'', ''time_period_model'',
       ''time_period_observations'', ''ref'', ''dive_down_diag'']"
      using event_metric_keys by blast
    with n show ?thesis by (simp add: key_lists)
  qed
qed

lemma EnsoAmpl_tel_example:
  "EnsoAmpl tel_example = Inr \<lparr>result = std_record PyNone,
      calls = [Call ''ReadSelectRegionCheckUnits'' ''sst'' ''nino3''
                 (test_given_kwargs needed_kwarg_one (kwargs tel_example)),
               Call ''ReadAreaSelectRegion'' ''sst_areacell'' ''nino3''
                 (test_given_kwargs needed_kwarg_one (kwargs tel_example)),
               Call ''ReadLandmaskSelectRegion'' ''sst_landmask'' ''nino3''
                 (test_given_kwargs needed_kwarg_one (kwargs tel_example)),
               Call ''PreProcessTS'' ''sst'' ''nino3''
                 (test_given_kwargs needed_kwarg_one (kwargs tel_example))],
      final_kwargs = test_given_kwargs needed_kwarg_one (kwargs tel_example)\<rparr>"
proof -
  have m: "test_given_kwargs needed_kwarg_one (kwargs tel_example) ''min_time_steps'' = Some (PyInt 204)"
    by (rule test_given_kwargs_keeps) (simp add: tel_example_def)
  have "kwargs tel_example ''frequency'' = None" by (simp add: tel_example_def)
  then have f: "test_given_kwargs needed_kwarg_one (kwargs tel_example) ''frequency'' = Some PyNone"
    using test_given_kwargs_default[OF frequency_in_needed(2), of "kwargs tel_example"]
    by (simp add: DefaultArgValues_def)
  have v: "len_model tel_example = 1800" "box tel_example = ''nino3''"
    by (simp_all add: tel_example_def)
  show ?thesis
    by (simp add: EnsoAmpl_def std_metric_def Let_def getitem_def m f v)
qed

theorem result_record_keys_witness:
  "set common_keys \<subseteq> set (result_keys (projr (EnsoAmpl tel_example)))
   \<and> set one_dataset_keys \<subseteq> set (result_keys (projr (EnsoAmpl tel_example)))"
proof -
  have h1: "(''EnsoAmpl'', EnsoAmpl) \<in> set metric_functions"
    by (simp add: metric_functions_def)
  have h2: "EnsoAmpl tel_example = Inr (projr (EnsoAmpl tel_example))"
    by (simp add: EnsoAmpl_tel_example)
  have n: "''EnsoAmpl'' \<in> set (feedback_metrics @ one_series_metrics)"
    by (simp add: metric_name_lists)
  from result_record_keys [OF h1 h2] n show ?thesis by blast
qed

text \<open>
  The claim as stated, one fixed key set for every metric function with only
  \<^verbatim>\<open>nonlinearity\<close>, \<^verbatim>\<open>nonlinearity_error\<close>, \<^verbatim>\<open>value2\<close> and \<^verbatim>\<open>dive_down_diag\<close> added, fails:
  the record of \<^verbatim>\<open>EnsoAmpl\<close> has \<^verbatim>\<open>nyears\<close> and \<^verbatim>\<open>time_period\<close> where that of
  \<^verbatim>\<open>BiasSstRmse\<close> has the four keys for model and observations, and the record of
  \<^verbatim>\<open>NinaSstTsRmse\<close> has \<^verbatim>\<open>events_model\<close> and \<^verbatim>\<open>events_observations\<close> besides.
\<close>

theorem same_fixed_key_set_counterexample:
  "returned_keys (EnsoAmpl tel_example)
     = Some [''name'', ''value'', ''value_error'', ''units'', ''method'', ''nyears'',
             ''time_frequency'', ''time_period'', ''ref'']
   \<and> returned_keys (BiasSstRmse tel_example)
     = Some [''name'', ''value'', ''value_error'', ''units'', ''method'', ''nyears_model'',
             ''nyears_observations'', ''time_frequency'', ''time_period_model'',
             ''time_period_observations'', ''ref'', ''dive_down_diag'']
   \<and> returned_keys (NinaSstTsRmse tel_example)
     = Some [''name'', ''value'', ''value_error'', ''units'', ''method'', ''nyears_model'',
             ''nyears_observations'', ''events_model'', ''events_observations'',
             ''time_frequency'', ''time_period_model'', ''time_period_observations'', ''ref'',
             ''dive_down_diag'']"
proof -
  have a: "returned_keys (EnsoAmpl tel_example)
     = Some [''name'', ''value'', ''value_error'', ''units'', ''method'', ''nyears'',
             ''time_frequency'', ''time_period'', ''ref'']"
    by (simp add: EnsoAmpl_tel_example returned_keys_def result_keys_def std_record_def)
  have lon: "long_enough tel_example" by (simp add: long_enough_def tel_example_def)
  have none: "kwargs tel_example ''regridding'' = None" by (simp add: tel_example_def)
  from rmse_metric_without_regridding[OF lon none, of "''BiasSstRmse''" "''sst_model''" "''sst_obs''"]
  obtain o1 where o1: "BiasSstRmse tel_example = Inr o1"
    unfolding BiasSstRmse_def by blast
  obtain f3 where f3: "getitem (test_given_kwargs needed_kwarg_events (kwargs tel_example)) ''frequency'' = Inr f3"
    using filled_frequency[OF frequency_in_needed(3)] by blast
  have "\<exists>o2. NinaSstTsRmse tel_example = Inr o2"
    using check_time_period_passes[OF lon min_time_steps_in_needed(3)] f3
    by (simp add: NinaSstTsRmse_def ts_composite_metric_def Let_def)
  then obtain o2 where o2: "NinaSstTsRmse tel_example = Inr o2" by blast
  have b: "returned_keys (BiasSstRmse tel_example)
     = Some [''name'', ''value'', ''value_error'', ''units'', ''method'', ''nyears_model'',
             ''nyears_observations'', ''time_frequency'', ''time_period_model'',
             ''time_period_observations'', ''ref'', ''dive_down_diag'']"
    using o1 rmse_metric_keys[of "''BiasSstRmse''" "''sst_model''" "''sst_obs''" tel_example o1]
    by (simp add: returned_keys_def BiasSstRmse_def)
  have c: "returned_keys (NinaSstTsRmse tel_example)
     = Some [''name'', ''value'', ''value_error'', ''units'', ''method'', ''nyears_model'',
             ''nyears_observations'', ''events_model'', ''events_observations'',
             ''time_frequency'', ''time_period_model'', ''time_period_observations'', ''ref'',
             ''dive_down_diag'']"
    using o2 event_metric_keys[of "''NinaSstTsRmse''" tel_example o2]
    by (simp add: returned_keys_def NinaSstTsRmse_def)
  from a b c show ?thesis by blast
qed

section \<open>The reference dataset of a plotted number\<close>




section \<open>The file and the path of a plotted number\<close>













section \<open>The threshold of the event detection\<close>

lemma season_offsets_first:
  assumes "season \<noteq> []"
  shows "season_offsets season ! 0 = hd season - 1" "season_offsets season \<noteq> []"
proof -
  from assms obtain m ms where s: "season = m # ms" by (cases season) auto
  have "[0..<length season] = 0 # [1..<length season]" using s by (simp add: upt_rec)
  then show "season_offsets season ! 0 = hd season - 1" "season_offsets season \<noteq> []"
    using s by (simp_all add: season_offsets_def)
qed

lemma seasonal_value_in_record:
  assumes "seasonal_value index_series first_year season y = Some v"
  shows "y \<in> set (record_years index_series first_year)"
proof -
  let ?months = "map (\<lambda>off. 12 * (y - first_year) + int off) (season_offsets season)"
  from assms have ne: "season \<noteq> []" and v: "\<forall>m \<in> set season. 1 \<le> m \<and> m \<le> 12"
    and r: "\<forall>i \<in> set ?months. 0 \<le> i \<and> i < int (length index_series)"
    by (simp_all add: seasonal_value_def Let_def split: if_splits)
  have "hd season \<in> set season" using ne by simp
  then have h: "hd season - 1 \<le> 11" using v by auto
  have "season_offsets season ! 0 \<in> set (season_offsets season)"
    using season_offsets_first(2)[OF ne] by (simp add: nth_mem)
  then have "12 * (y - first_year) + int (hd season - 1) \<in> set ?months"
    unfolding season_offsets_first(1)[OF ne] by simp
  with r have b: "0 \<le> 12 * (y - first_year) + int (hd season - 1)"
      "12 * (y - first_year) + int (hd season - 1) < int (length index_series)" by blast+
  from b(1) h have y0: "0 \<le> y - first_year" by arith
  define k where "k = nat (y - first_year)"
  have yk: "y = first_year + int k" using y0 by (simp add: k_def)
  have "12 * int k < int (length index_series)" using b(2) yk by simp
  then have "12 * k < length index_series" by linarith
  then have "k < (length index_series + 11) div 12" by simp
  then show ?thesis unfolding record_years_def yk by simp
qed

lemma record_years_sorted:
  "sorted (record_years index_series first_year)" "distinct (record_years index_series first_year)"
  by (simp_all add: record_years_def sorted_map distinct_map inj_on_def sorted_wrt_iff_nth_less)

text \<open>
  Claim C3. A year is an event of \<^verbatim>\<open>DetectEvents\<close> exactly when it has a seasonal value and
  that value, divided by the standard deviation of the whole series when normalization
  is asked for and taken as it is otherwise, is \<open>\<ge> threshold\<close> for the warm sign and
  \<open>\<le> threshold\<close> for the cold sign. A value equal to the threshold makes the year an
  event for both signs; a value below the threshold does not for the warm sign, nor a
  value above it for the cold sign. The years come in ascending order without
  duplicates. A normalized series is taken to have a non-zero standard deviation.
\<close>

theorem DetectEvents_threshold:
  assumes "normalization \<longrightarrow> Std index_series \<noteq> 0"
  shows "(y \<in> set (DetectEvents index_series first_year season threshold normalization nino)
            \<longleftrightarrow> (\<exists>v. seasonal_value index_series first_year season y = Some v
                     \<and> (if nino then threshold \<le> compared index_series normalization v
                         else compared index_series normalization v \<le> threshold)))
       \<and> (\<forall>v. seasonal_value index_series first_year season y = Some v
                \<and> compared index_series normalization v = threshold
              \<longrightarrow> y \<in> set (DetectEvents index_series first_year season threshold normalization nino))
       \<and> (\<forall>v. seasonal_value index_series first_year season y = Some v
                \<and> compared index_series normalization v < threshold
              \<longrightarrow> y \<notin> set (DetectEvents index_series first_year season threshold normalization True))
       \<and> (\<forall>v. seasonal_value index_series first_year season y = Some v
                \<and> threshold < compared index_series normalization v
              \<longrightarrow> y \<notin> set (DetectEvents index_series first_year season threshold normalization False))
       \<and> compared index_series normalization v' =
           (if normalization then v' / Std index_series else v')
       \<and> sorted (DetectEvents index_series first_year season threshold normalization nino)
       \<and> distinct (DetectEvents index_series first_year season threshold normalization nino)"
proof -
  have m: "y \<in> set (DetectEvents index_series first_year season t normalization n)
            \<longleftrightarrow> (\<exists>v. seasonal_value index_series first_year season y = Some v
                     \<and> (if n then t \<le> compared index_series normalization v
                         else compared index_series normalization v \<le> t))" for t n
    using seasonal_value_in_record[of index_series first_year season y]
    by (auto simp: DetectEvents_def split: option.splits)
  have s: "sorted (DetectEvents index_series first_year season threshold normalization nino)"
    unfolding DetectEvents_def by (rule sorted_wrt_filter) (rule record_years_sorted)
  have d: "distinct (DetectEvents index_series first_year season threshold normalization nino)"
    unfolding DetectEvents_def by (rule distinct_filter) (rule record_years_sorted)
  show ?thesis unfolding m using s d by (auto simp: compared_def)
qed

lemma season_offsets_DJF: "season_offsets DJF = [11, 12, 13]"
  by (simp add: season_offsets_def DJF_def upt_rec)

lemma seasonal_value_DJF:
  "seasonal_value s fy DJF y =
     (if 0 \<le> 12 * (y - fy) + 11 \<and> 12 * (y - fy) + 13 < int (length s)
      then Some ((s ! nat (12 * (y - fy) + 11) + s ! nat (12 * (y - fy) + 12)
                  + s ! nat (12 * (y - fy) + 13)) / 3)
      else None)"
  unfolding seasonal_value_def season_offsets_DJF
  by (auto simp: DJF_def mean_def)

lemma record_years_djf_example: "record_years djf_example 1 = [1, 2, 3, 4, 5, 6, 7, 8, 9, 10]"
  by (simp add: record_years_def djf_example_def upt_rec)

lemma seasonal_value_djf_example:
  "seasonal_value djf_example 1 DJF 1 = Some (1 / 2)"
  "seasonal_value djf_example 1 DJF 2 = Some (3 / 4)"
  "seasonal_value djf_example 1 DJF 3 = Some 1"
  "seasonal_value djf_example 1 DJF 4 = Some 0"
  "seasonal_value djf_example 1 DJF 5 = Some 0"
  "seasonal_value djf_example 1 DJF 6 = Some 0"
  "seasonal_value djf_example 1 DJF 7 = Some 0"
  "seasonal_value djf_example 1 DJF 8 = Some 0"
  "seasonal_value djf_example 1 DJF 9 = Some 0"
  "seasonal_value djf_example 1 DJF 10 = None"
  by (simp_all add: seasonal_value_DJF djf_example_def nth_append)

lemma Std_normalized_example: "Std normalized_example = 1 / 2"
proof -
  have m: "mean normalized_example = 0"
    by (simp add: mean_def normalized_example_def sum_list_replicate)
  have "Std normalized_example = sqrt ((1 / 2)\<^sup>2)"
    unfolding Std_def m by (simp add: normalized_example_def power2_eq_square sum_list_replicate)
  then show ?thesis by (simp del: power_divide)
qed

theorem DetectEvents_threshold_witness:
  "DetectEvents djf_example 1 DJF (3 / 4) False True = [2, 3]
   \<and> seasonal_value djf_example 1 DJF 1 = Some (3 / 4 - 1 / 4)
   \<and> seasonal_value djf_example 1 DJF 2 = Some (3 / 4)
   \<and> seasonal_value djf_example 1 DJF 3 = Some (3 / 4 + 1 / 4)
   \<and> 1 \<notin> set (DetectEvents djf_example 1 DJF (3 / 4) False True)
   \<and> 2 \<in> set (DetectEvents djf_example 1 DJF (3 / 4) False True)
   \<and> Std normalized_example \<noteq> 0
   \<and> seasonal_value normalized_example 1 DJF 1 = Some (1 / 2)
   \<and> 1 \<in> set (DetectEvents normalized_example 1 DJF 1 True True)"
proof -
  have e: "DetectEvents djf_example 1 DJF (3 / 4) False True = [2, 3]"
    by (simp add: DetectEvents_def record_years_djf_example seasonal_value_djf_example compared_def)
  have n: "seasonal_value normalized_example 1 DJF 1 = Some (1 / 2)"
    by (simp add: seasonal_value_DJF normalized_example_def nth_append)
  have c: "compared normalized_example True (1 / 2) = 1"
    by (simp add: compared_def Std_normalized_example)
  have s: "True \<longrightarrow> Std normalized_example \<noteq> 0" by (simp add: Std_normalized_example)
  have f: "False \<longrightarrow> Std djf_example \<noteq> 0" by simp
  from DetectEvents_threshold [OF f, of 1 1 DJF "3 / 4" True]
  have "seasonal_value djf_example 1 DJF 1 = Some (1 / 2)
          \<and> compared djf_example False (1 / 2) < 3 / 4
        \<longrightarrow> 1 \<notin> set (DetectEvents djf_example 1 DJF (3 / 4) False True)"
    by blast
  then have below: "1 \<notin> set (DetectEvents djf_example 1 DJF (3 / 4) False True)"
    by (simp add: seasonal_value_djf_example compared_def)
  from DetectEvents_threshold [OF f, of 2 1 DJF "3 / 4" True]
  have "seasonal_value djf_example 1 DJF 2 = Some (3 / 4)
          \<and> compared djf_example False (3 / 4) = 3 / 4
        \<longrightarrow> 2 \<in> set (DetectEvents djf_example 1 DJF (3 / 4) False True)"
    by blast
  then have equal: "2 \<in> set (DetectEvents djf_example 1 DJF (3 / 4) False True)"
    by (simp add: seasonal_value_djf_example compared_def)
  from DetectEvents_threshold [OF s, of 1 1 DJF 1 True]
  have "seasonal_value normalized_example 1 DJF 1 = Some (1 / 2)
          \<and> compared normalized_example True (1 / 2) = 1
        \<longrightarrow> 1 \<in> set (DetectEvents normalized_example 1 DJF 1 True True)"
    by blast
  with n c have normalized: "1 \<in> set (DetectEvents normalized_example 1 DJF 1 True True)"
    by blast
  from e below equal normalized n s show ?thesis
    by (simp add: seasonal_value_djf_example)
qed

section \<open>The windowed composite\<close>

lemma length_pointwise_mean: "length (pointwise_mean n extracts) = n"
  by (simp add: pointwise_mean_def)

lemma window_length:
  assumes "in_record field_series first_year W y"
  shows "length (window field_series first_year W y) = 12 * W"
proof -
  from assms have "nat (window_start first_year W y) + 12 * W \<le> length field_series"
    unfolding in_record_def by linarith
  then show ?thesis by (simp add: window_def)
qed

lemma window_nth:
  assumes "in_record field_series first_year W y" and "k < 12 * W"
  shows "window field_series first_year W y ! k
           = field_series ! (nat (window_start first_year W y) + k)"
proof -
  from assms(1) have "nat (window_start first_year W y) \<le> length field_series"
    unfolding in_record_def by linarith
  then show ?thesis using assms(2) by (simp add: window_def)
qed

lemma retained_idem:
  "retained field_series first_year W (retained field_series first_year W event_years)
     = retained field_series first_year W event_years"
  by (simp add: retained_def)

text \<open>
  Claim C4. The windowed composite has \<open>12 * W\<close> points. The retained event years are those
  whose window, which starts \<open>12 * (W div 2) + 11\<close> months before their December, lies
  within the record; the window of a retained year has \<open>12 * W\<close> points, consecutive
  values of the series, with the December of the year at position \<open>12 * (W div 2) + 11\<close>.
  With a retained year, each point of the composite is the arithmetic mean over the
  retained years of that point of their windows; with none, every point is undefined.
  The years left out have no influence on the composite. The first year of the record is
  left out as soon as \<open>W\<close> is at least 2, and with a record of 60 months and \<open>W = 6\<close> no
  year is retained.
\<close>

theorem Composite_windowed:
  "length (Composite field_series first_year event_years W) = 12 * W
   \<and> (\<forall>y. y \<in> set (retained field_series first_year W event_years) \<longleftrightarrow>
          y \<in> set event_years
          \<and> 0 \<le> december first_year y - (12 * int (W div 2) + 11)
          \<and> december first_year y - (12 * int (W div 2) + 11) + 12 * int W
               \<le> int (length field_series))
   \<and> (\<forall>y \<in> set (retained field_series first_year W event_years).
          length (window field_series first_year W y) = 12 * W
          \<and> (0 < W \<longrightarrow> window field_series first_year W y ! (12 * (W div 2) + 11)
                          = field_series ! nat (december first_year y))
          \<and> (\<forall>k < 12 * W. window field_series first_year W y ! k
                = field_series ! nat (december first_year y - (12 * int (W div 2) + 11) + int k)))
   \<and> (retained field_series first_year W event_years \<noteq> [] \<longrightarrow>
        (\<forall>k < 12 * W.
           Composite field_series first_year event_years W ! k
             = Some (sum_list (map (\<lambda>y. window field_series first_year W y ! k)
                         (retained field_series first_year W event_years))
                     / real (length (retained field_series first_year W event_years)))))
   \<and> (retained field_series first_year W event_years = [] \<longrightarrow>
        Composite field_series first_year event_years W = replicate (12 * W) None)
   \<and> Composite field_series first_year event_years W
       = Composite field_series first_year (retained field_series first_year W event_years) W
   \<and> (2 \<le> W \<longrightarrow> first_year \<notin> set (retained field_series first_year W event_years))
   \<and> (length field_series = 60 \<and> W = 6 \<longrightarrow>
        retained field_series first_year W event_years = [])"
proof -
  let ?kept = "retained field_series first_year W event_years"
  have 1: "length (Composite field_series first_year event_years W) = 12 * W"
    by (simp add: Composite_def length_pointwise_mean)
  have 2: "y \<in> set ?kept \<longleftrightarrow>
          y \<in> set event_years
          \<and> 0 \<le> december first_year y - (12 * int (W div 2) + 11)
          \<and> december first_year y - (12 * int (W div 2) + 11) + 12 * int W
               \<le> int (length field_series)" for y
    by (simp add: retained_def in_record_def window_start_def)
  have 3: "length (window field_series first_year W y) = 12 * W
          \<and> (0 < W \<longrightarrow> window field_series first_year W y ! (12 * (W div 2) + 11)
                          = field_series ! nat (december first_year y))
          \<and> (\<forall>k < 12 * W. window field_series first_year W y ! k
                = field_series ! nat (december first_year y - (12 * int (W div 2) + 11) + int k))"
    if "y \<in> set ?kept" for y
  proof -
    from that have r: "in_record field_series first_year W y" by (simp add: retained_def)
    then have s: "0 \<le> window_start first_year W y" by (simp add: in_record_def)
    have n: "window field_series first_year W y ! k
               = field_series ! nat (december first_year y - (12 * int (W div 2) + 11) + int k)"
      if "k < 12 * W" for k
    proof -
      have "nat (window_start first_year W y) + k = nat (window_start first_year W y + int k)"
        using s by linarith
      then show ?thesis
        using window_nth[OF r that] by (simp add: window_start_def)
    qed
    have "window field_series first_year W y ! (12 * (W div 2) + 11)
            = field_series ! nat (december first_year y)" if "0 < W"
    proof -
      have "12 * (W div 2) + 11 < 12 * W" using that by presburger
      from n[OF this] show ?thesis by simp
    qed
    with n window_length[OF r] show ?thesis by blast
  qed
  have 4: "Composite field_series first_year event_years W ! k
             = Some (sum_list (map (\<lambda>y. window field_series first_year W y ! k) ?kept)
                     / real (length ?kept))"
    if "?kept \<noteq> []" "k < 12 * W" for k
    using that by (simp add: Composite_def pointwise_mean_def mean_def comp_def)
  have 5: "Composite field_series first_year event_years W = replicate (12 * W) None"
    if "?kept = []"
    using that by (simp add: Composite_def pointwise_mean_def)
  have 6: "Composite field_series first_year event_years W
             = Composite field_series first_year ?kept W"
    by (simp add: Composite_def retained_idem)
  have 7: "first_year \<notin> set ?kept" if "2 \<le> W"
  proof -
    from that have "1 \<le> W div 2" by linarith
    then show ?thesis by (simp add: 2 december_def)
  qed
  have 8: "?kept = []" if "length field_series = 60 \<and> W = 6"
  proof -
    have "\<not> in_record field_series first_year W y" for y
      using that by (auto simp: in_record_def)
    then show ?thesis by (simp add: retained_def)
  qed
  from 1 2 3 4 5 6 7 8 show ?thesis by blast
qed

lemma retained_five_years: "retained five_years 1 3 [1, 2, 3, 5] = [2, 3]"
  by (simp add: retained_def in_record_def window_start_def december_def five_years_def)

theorem Composite_windowed_witness:
  "retained five_years 1 3 [1, 2, 3, 5] = [2, 3]
   \<and> window five_years 1 3 2 ! 23 = five_years ! 23
   \<and> window five_years 1 3 3 ! 23 = five_years ! 35
   \<and> Composite five_years 1 [1, 2, 3, 5] 3 ! 23 = Some 29
   \<and> Composite five_years 1 [1, 2, 3, 5] 3 = Composite five_years 1 [2, 3] 3
   \<and> Composite five_years 1 [1, 3] 6 = replicate 72 None"
proof -
  note t = Composite_windowed [of five_years 1 "[1, 2, 3, 5]" 3]
  have k: "2 \<in> set (retained five_years 1 3 [1, 2, 3, 5])"
      "3 \<in> set (retained five_years 1 3 [1, 2, 3, 5])"
    by (simp_all add: retained_five_years)
  have w: "(0::nat) < 3" "12 * (3 div 2) + 11 = (23::nat)" "(23::nat) < 12 * 3" by simp_all
  have d: "nat (december 1 2) = 23" "nat (december 1 3) = 35" by (simp_all add: december_def)
  from t k(1) w have a: "window five_years 1 3 2 ! 23 = five_years ! nat (december 1 2)"
    by metis
  from t k(2) w have b: "window five_years 1 3 3 ! 23 = five_years ! nat (december 1 3)"
    by metis
  have ne: "retained five_years 1 3 [1, 2, 3, 5] \<noteq> []" by (simp add: retained_five_years)
  from t ne w(3) have "Composite five_years 1 [1, 2, 3, 5] 3 ! 23
      = Some (sum_list (map (\<lambda>y. window five_years 1 3 y ! 23) (retained five_years 1 3 [1, 2, 3, 5]))
              / real (length (retained five_years 1 3 [1, 2, 3, 5])))"
    by blast
  then have c: "Composite five_years 1 [1, 2, 3, 5] 3 ! 23 = Some 29"
    unfolding retained_five_years by (simp add: a b d) (simp add: five_years_def)
  from t have e: "Composite five_years 1 [1, 2, 3, 5] 3 = Composite five_years 1 [2, 3] 3"
    unfolding retained_five_years by presburger
  have l: "length five_years = 60 \<and> (6::nat) = 6" by (simp add: five_years_def)
  from Composite_windowed [of five_years 1 "[1, 3]" 6] l
  have "retained five_years 1 6 [1, 3] = []" by blast
  with Composite_windowed [of five_years 1 "[1, 3]" 6]
  have f: "Composite five_years 1 [1, 3] 6 = replicate 72 None" by simp
  from a b c e f show ?thesis by (simp add: retained_five_years d)
qed

end
